theory Spec2Isabelle
  imports Complex_Main "HOL-Library.Word" "HOL-Library.AList"
begin

section \<open>JavaScript values\<close>

text \<open>
  A JavaScript string is a sequence of UTF-16 code units; \<open>trim\<close> and the regular
  expression of the hardened handler both work on code units. \<open>lit\<close> embeds an ASCII
  literal of the source.
\<close>

type_synonym jsstring = "16 word list"

definition lit :: "string \<Rightarrow> jsstring" where
  "lit s = map (\<lambda>c. of_nat (of_char c)) s"

text \<open>
  The values the handlers see are the results of parsing JSON (the request body, the
  upstream payload) and \<open>undefined\<close> for an absent property. A finite number is
  given by its exact rational value (every double is one), with \<open>NaN\<close> and the two
  infinities beside it; zero stands for both zeros, which are equally falsy and print
  alike under \<open>toFixed\<close>. An object is the list of its own properties in the order
  \<open>Object.keys\<close> enumerates them.
\<close>

datatype jsval =
    JUndefined
  | JNull
  | JBool bool
  | JNum rat
  | JNaN
  | JInf bool
  | JStr jsstring
  | JArr "jsval list"
  | JObj "(jsstring \<times> jsval) list"

fun typeof :: "jsval \<Rightarrow> string" where
  "typeof JUndefined = ''undefined''"
| "typeof JNull = ''object''"
| "typeof (JBool b) = ''boolean''"
| "typeof (JNum x) = ''number''"
| "typeof JNaN = ''number''"
| "typeof (JInf b) = ''number''"
| "typeof (JStr s) = ''string''"
| "typeof (JArr xs) = ''object''"
| "typeof (JObj kvs) = ''object''"

fun truthy :: "jsval \<Rightarrow> bool" where
  "truthy JUndefined = False"
| "truthy JNull = False"
| "truthy (JBool b) = b"
| "truthy (JNum x) = (x \<noteq> 0)"
| "truthy JNaN = False"
| "truthy (JInf b) = True"
| "truthy (JStr s) = (s \<noteq> [])"
| "truthy (JArr xs) = True"
| "truthy (JObj kvs) = True"

fun isArray :: "jsval \<Rightarrow> bool" where
  "isArray (JArr xs) = True"
| "isArray v = False"

text \<open>The characters of a value already known to be a string.\<close>

fun strval :: "jsval \<Rightarrow> jsstring" where
  "strval (JStr s) = s"
| "strval v = []"

subsection \<open>Exceptions\<close>

text \<open>
  Every throw of the source is a value: the two \<open>TypeError\<close>s the engine raises (a
  property read on \<open>null\<close> or \<open>undefined\<close>, a call of something that is not a
  function, a conversion of an object to a primitive), the \<open>Error\<close> the handler
  throws itself, and the rejection of an awaited platform promise with its name and
  message.
\<close>

datatype js_error =
    NullishRead jsval jsstring
  | NotAFunction jsval jsstring
  | NotPrimitive jsval
  | Thrown jsstring
  | Rejected string jsstring

text \<open>
  What the engine supplies and the language leaves open: the digits of
  \<open>Number::toString\<close> on a finite number, and the wording of its own
  \<open>TypeError\<close> messages.
\<close>

record runtime =
  numberToString :: "rat \<Rightarrow> jsstring"
  typeErrorMessage :: "js_error \<Rightarrow> jsstring"

fun error_name :: "js_error \<Rightarrow> string" where
  "error_name (NullishRead v k) = ''TypeError''"
| "error_name (NotAFunction v k) = ''TypeError''"
| "error_name (NotPrimitive v) = ''TypeError''"
| "error_name (Thrown m) = ''Error''"
| "error_name (Rejected n m) = n"

fun error_message :: "runtime \<Rightarrow> js_error \<Rightarrow> jsstring" where
  "error_message rt (Thrown m) = m"
| "error_message rt (Rejected n m) = m"
| "error_message rt e = typeErrorMessage rt e"

definition bindE :: "js_error + 'a \<Rightarrow> ('a \<Rightarrow> js_error + 'b) \<Rightarrow> js_error + 'b" where
  "bindE m f = (case m of Inl e \<Rightarrow> Inl e | Inr x \<Rightarrow> f x)"

text \<open>The elements of an array literal are evaluated left to right; the first throw wins.\<close>

fun sequenceE :: "(js_error + 'a) list \<Rightarrow> js_error + 'a list" where
  "sequenceE [] = Inr []"
| "sequenceE (m # ms) = bindE m (\<lambda>x. bindE (sequenceE ms) (\<lambda>xs. Inr (x # xs)))"

subsection \<open>Strings and numbers\<close>

fun decimal :: "nat \<Rightarrow> jsstring" where
  "decimal n = (if n < 10 then [of_nat (48 + n)] else decimal (n div 10) @ [of_nat (48 + n mod 10)])"

declare decimal.simps [simp del]

text \<open>\<open>WhiteSpace\<close> and \<open>LineTerminator\<close> of ECMAScript: what \<open>trim\<close> strips and \<open>\s\<close> matches.\<close>

definition isWhiteSpace :: "16 word \<Rightarrow> bool" where
  "isWhiteSpace c \<longleftrightarrow>
     c \<in> {0x09, 0x0A, 0x0B, 0x0C, 0x0D, 0x20, 0xA0, 0x1680, 0x2028, 0x2029, 0x202F, 0x205F,
          0x3000, 0xFEFF}
     \<or> (0x2000 \<le> c \<and> c \<le> 0x200A)"

definition trim :: "jsstring \<Rightarrow> jsstring" where
  "trim s = rev (dropWhile isWhiteSpace (rev (dropWhile isWhiteSpace s)))"

text \<open>
  \<open>Number.prototype.toFixed(2)\<close> on a finite number: the sign, then the integer \<open>n\<close>
  nearest to \<open>100 * x\<close> (the larger of two), padded to three digits, with the point
  before the last two. From \<open>10^21\<close> on the engine's \<open>Number::toString\<close> is used.
\<close>

definition fixed2 :: "runtime \<Rightarrow> rat \<Rightarrow> jsstring" where
  "fixed2 rt x =
     (let s = (if x < 0 then lit ''-'' else []);
          a = (if x < 0 then - x else x)
      in if 10 ^ 21 \<le> a then s @ numberToString rt a
         else
           (let n = nat \<lfloor>a * 100 + 1 / 2\<rfloor>;
                m = decimal n;
                m' = (if length m \<le> 2 then replicate (3 - length m) 48 @ m else m);
                k = length m'
            in s @ take (k - 2) m' @ lit ''.'' @ drop (k - 2) m'))"

text \<open>
  The method call \<open>v.toFixed(2)\<close>: only a number has the method; on anything else
  the call throws (no parsed JSON value is callable).
\<close>

fun toFixed2 :: "runtime \<Rightarrow> jsval \<Rightarrow> js_error + jsstring" where
  "toFixed2 rt (JNum x) = Inr (fixed2 rt x)"
| "toFixed2 rt JNaN = Inr (lit ''NaN'')"
| "toFixed2 rt (JInf b) = Inr (if b then lit ''Infinity'' else lit ''-Infinity'')"
| "toFixed2 rt JUndefined = Inl (NullishRead JUndefined (lit ''toFixed''))"
| "toFixed2 rt JNull = Inl (NullishRead JNull (lit ''toFixed''))"
| "toFixed2 rt v = Inl (NotAFunction v (lit ''toFixed''))"

subsection \<open>Properties\<close>

text \<open>
  The own enumerable string-keyed properties of a value, in enumeration order: what
  \<open>Object.keys\<close> lists and what the spread \<open>{...v}\<close> copies.
\<close>

fun own_entries :: "jsval \<Rightarrow> (jsstring \<times> jsval) list" where
  "own_entries (JObj kvs) = kvs"
| "own_entries (JArr xs) = zip (map decimal [0..<length xs]) xs"
| "own_entries (JStr s) = zip (map decimal [0..<length s]) (map (\<lambda>c. JStr [c]) s)"
| "own_entries v = []"

text \<open>
  The property read \<open>v.k\<close>. It throws on \<open>null\<close> and \<open>undefined\<close>. The handlers
  read only the names \<open>_nkw\<close>, \<open>category_id\<close>, \<open>error\<close>, \<open>organic_results\<close>,
  \<open>shipping\<close>, \<open>price\<close>, \<open>raw\<close>, \<open>formatted\<close>, \<open>extracted_value\<close>,
  \<open>extracted\<close>, \<open>value\<close>, \<open>amount\<close> and the keys \<open>Object.keys\<close> returned, none
  of which a prototype defines, so an own property or \<open>undefined\<close> is the result.
\<close>

fun getProp :: "jsval \<Rightarrow> jsstring \<Rightarrow> js_error + jsval" where
  "getProp JUndefined k = Inl (NullishRead JUndefined k)"
| "getProp JNull k = Inl (NullishRead JNull k)"
| "getProp v k = Inr (case map_of (own_entries v) k of Some x \<Rightarrow> x | None \<Rightarrow> JUndefined)"

section \<open>Price cleaning\<close>

definition priceNotAvailable :: jsstring where
  "priceNotAvailable = lit ''Price not available''"

text \<open>The simplified \<open>cleanPriceField\<close> of the rate-limited handler.\<close>

definition cleanPriceField_simplified :: "runtime \<Rightarrow> jsval \<Rightarrow> js_error + jsstring" where
  "cleanPriceField_simplified rt priceData =
     (if typeof priceData = ''string'' \<and> trim (strval priceData) \<noteq> [] then
        Inr (trim (strval priceData))
      else if truthy priceData \<and> typeof priceData = ''object'' then
        bindE (getProp priceData (lit ''raw'')) (\<lambda>raw.
          if truthy raw \<and> typeof raw = ''string'' then Inr (strval raw)
          else
            bindE (getProp priceData (lit ''extracted_value'')) (\<lambda>ev.
              if typeof ev = ''number'' then
                bindE (toFixed2 rt ev) (\<lambda>s. Inr (lit ''$'' @ s))
              else Inr priceNotAvailable))
      else Inr priceNotAvailable)"

text \<open>
  The comprehensive \<open>cleanPriceField\<close>. Its array of attempts is built in full before
  the loop looks at it: each numeric candidate is read, and when truthy its
  \<open>toFixed\<close> is called.
\<close>

definition numAttempt :: "runtime \<Rightarrow> jsval \<Rightarrow> jsstring \<Rightarrow> js_error + jsval" where
  "numAttempt rt priceData k =
     bindE (getProp priceData k) (\<lambda>v.
       if truthy v then bindE (toFixed2 rt v) (\<lambda>s. Inr (JStr (lit ''$'' @ s)))
       else Inr JNull)"

fun firstValid :: "jsval list \<Rightarrow> jsstring option" where
  "firstValid [] = None"
| "firstValid (attempt # rest) =
     (if truthy attempt \<and> typeof attempt = ''string'' \<and> trim (strval attempt) \<noteq> []
      then Some (strval attempt)
      else firstValid rest)"

definition cleanPriceField_comprehensive :: "runtime \<Rightarrow> jsval \<Rightarrow> js_error + jsstring" where
  "cleanPriceField_comprehensive rt priceData =
     (if typeof priceData = ''string'' then Inr (strval priceData)
      else if \<not> truthy priceData \<or> typeof priceData \<noteq> ''object'' then Inr priceNotAvailable
      else
        bindE (sequenceE
                 [getProp priceData (lit ''raw''),
                  getProp priceData (lit ''formatted''),
                  numAttempt rt priceData (lit ''extracted_value''),
                  numAttempt rt priceData (lit ''extracted''),
                  numAttempt rt priceData (lit ''value''),
                  numAttempt rt priceData (lit ''amount''),
                  numAttempt rt priceData (lit ''price'')])
          (\<lambda>attempts.
             case firstValid attempts of
               Some s \<Rightarrow> Inr s
             | None \<Rightarrow> Inr priceNotAvailable))"

text \<open>
  A runtime for the closed examples: \<open>Number::toString\<close> as it is on the
  non-negative integers below \<open>10^21\<close> (their decimal digits), and V8's wording
  left out of the messages.
\<close>

definition exampleRuntime :: runtime where
  "exampleRuntime =
     \<lparr> numberToString = (\<lambda>x. (if x < 0 then lit ''-'' else []) @ decimal (nat \<lfloor>\<bar>x\<bar>\<rfloor>)),
       typeErrorMessage = (\<lambda>e. lit ''TypeError'') \<rparr>"

section \<open>Response sanitizer\<close>

text \<open>
  One product of \<open>organic_results\<close>: the spread \<open>{...product}\<close> copies the own
  properties, \<open>delete\<close> removes \<open>shipping\<close>, and the assignment to \<open>price\<close>
  overwrites the property in place or adds it after the others.
\<close>

definition cleanProduct_with ::
  "(jsval \<Rightarrow> js_error + jsstring) \<Rightarrow> jsval \<Rightarrow> js_error + jsval" where
  "cleanProduct_with cleanPriceField product =
     (let cleanProduct = AList.delete (lit ''shipping'') (own_entries product)
      in bindE (getProp (JObj cleanProduct) (lit ''price'')) (\<lambda>price.
           bindE (cleanPriceField price) (\<lambda>p.
             Inr (JObj (AList.update (lit ''price'') (JStr p) cleanProduct)))))"

definition cleanProduct_simplified :: "runtime \<Rightarrow> jsval \<Rightarrow> js_error + jsval" where
  "cleanProduct_simplified rt = cleanProduct_with (cleanPriceField_simplified rt)"

definition cleanProduct_comprehensive :: "runtime \<Rightarrow> jsval \<Rightarrow> js_error + jsval" where
  "cleanProduct_comprehensive rt = cleanProduct_with (cleanPriceField_comprehensive rt)"

text \<open>The handler of \<open>api/ebay-search.js\<close> formats the price inline.\<close>

definition cleanProduct_inline :: "runtime \<Rightarrow> jsval \<Rightarrow> js_error + jsval" where
  "cleanProduct_inline rt product =
     (let cleanProduct = AList.delete (lit ''shipping'') (own_entries product)
      in bindE (getProp (JObj cleanProduct) (lit ''price'')) (\<lambda>price.
           if truthy price \<and> typeof price = ''object'' then
             bindE (getProp price (lit ''raw'')) (\<lambda>raw.
               if truthy raw then Inr (JObj (AList.update (lit ''price'') raw cleanProduct))
               else
                 bindE (getProp price (lit ''extracted'')) (\<lambda>extracted.
                   if truthy extracted then
                     bindE (toFixed2 rt extracted) (\<lambda>s.
                       Inr (JObj (AList.update (lit ''price'') (JStr s) cleanProduct)))
                   else Inr (JObj cleanProduct)))
           else Inr (JObj cleanProduct)))"

text \<open>\<open>Array.prototype.map\<close>: the callback runs on the elements in order.\<close>

definition mapE :: "('a \<Rightarrow> js_error + 'b) \<Rightarrow> 'a list \<Rightarrow> js_error + 'b list" where
  "mapE f xs = sequenceE (map f xs)"

fun elems :: "jsval \<Rightarrow> jsval list" where
  "elems (JArr xs) = xs"
| "elems v = []"

text \<open>
  The assignment \<open>data.k = v\<close>. It is reached only after \<open>data.k\<close> was read truthy,
  which it is on an object alone.
\<close>

fun setProp :: "jsval \<Rightarrow> jsstring \<Rightarrow> jsval \<Rightarrow> jsval" where
  "setProp (JObj kvs) k v = JObj (AList.update k v kvs)"
| "setProp d k v = d"

text \<open>The hardened handler maps only over an array.\<close>

definition sanitizeData_hardened :: "runtime \<Rightarrow> jsval \<Rightarrow> js_error + jsval" where
  "sanitizeData_hardened rt data =
     bindE (getProp data (lit ''organic_results'')) (\<lambda>results.
       if truthy results \<and> isArray results then
         bindE (mapE (cleanProduct_simplified rt) (elems results)) (\<lambda>cleaned.
           Inr (setProp data (lit ''organic_results'') (JArr cleaned)))
       else Inr data)"

text \<open>
  The other two handlers call \<open>.map\<close> on any truthy \<open>organic_results\<close>; only an
  array has that method.
\<close>

definition sanitizeData_open ::
  "(jsval \<Rightarrow> js_error + jsval) \<Rightarrow> jsval \<Rightarrow> js_error + jsval" where
  "sanitizeData_open cleanProduct data =
     bindE (getProp data (lit ''organic_results'')) (\<lambda>results.
       if truthy results then
         (if isArray results then
            bindE (mapE cleanProduct (elems results)) (\<lambda>cleaned.
              Inr (setProp data (lit ''organic_results'') (JArr cleaned)))
          else Inl (NotAFunction results (lit ''map'')))
       else Inr data)"

section \<open>Rate limiter\<close>

text \<open>
  \<open>rateLimitMap\<close> is a \<open>Map\<close> from client IP to its entry; a \<open>Map\<close> keeps its keys
  in insertion order and \<open>set\<close> on a present key keeps the key's place. \<open>Date.now()\<close>
  is the argument \<open>now\<close>, in milliseconds.
\<close>

record clientData =
  requests :: nat
  resetTime :: int

type_synonym rateLimitMap = "(jsstring \<times> clientData) list"

definition RATE_LIMIT_WINDOW_MS :: int where
  "RATE_LIMIT_WINDOW_MS = 60 * 1000"

definition RATE_LIMIT_MAX_REQUESTS :: nat where
  "RATE_LIMIT_MAX_REQUESTS = 30"

text \<open>
  The entry found in the map is the stored object itself, so the window reset writes
  through to the map before the limit is tested; a fresh entry is stored only by the
  \<open>set\<close> after the increment.
\<close>

definition checkRateLimit :: "int \<Rightarrow> jsstring \<Rightarrow> rateLimitMap \<Rightarrow> bool \<times> rateLimitMap" where
  "checkRateLimit now clientIP m =
     (let found = map_of m clientIP;
          clientData0 = (case found of
                           Some d \<Rightarrow> d
                         | None \<Rightarrow> \<lparr> requests = 0, resetTime = now + RATE_LIMIT_WINDOW_MS \<rparr>);
          expired = (now > resetTime clientData0);
          clientData1 = (if expired
                         then \<lparr> requests = 0, resetTime = now + RATE_LIMIT_WINDOW_MS \<rparr>
                         else clientData0);
          m1 = (if expired \<and> found \<noteq> None then AList.update clientIP clientData1 m else m)
      in if requests clientData1 \<ge> RATE_LIMIT_MAX_REQUESTS then (False, m1)
         else
           (let clientData2 = clientData1 \<lparr> requests := requests clientData1 + 1 \<rparr>;
                m2 = AList.update clientIP clientData2 m1;
                m3 = (if length m2 > 1000
                      then filter (\<lambda>(ip, d). \<not> resetTime d < now - RATE_LIMIT_WINDOW_MS) m2
                      else m2)
            in (True, m3)))"

text \<open>A run of calls, each with its own clock reading and client.\<close>

fun checkAll :: "(int \<times> jsstring) list \<Rightarrow> rateLimitMap \<Rightarrow> bool list \<times> rateLimitMap" where
  "checkAll [] m = ([], m)"
| "checkAll ((now, ip) # calls) m =
     (let (allowed, m') = checkRateLimit now ip m;
          (rest, m'') = checkAll calls m'
      in (allowed # rest, m''))"

text \<open>The states of the map reachable from the empty map of a cold start.\<close>

inductive reachable :: "rateLimitMap \<Rightarrow> bool" where
  reachable_empty: "reachable []"
| reachable_step: "reachable m \<Longrightarrow> reachable (snd (checkRateLimit now ip m))"

section \<open>Requests and responses\<close>

record request =
  reqMethod :: jsstring
  origin :: "jsstring option"
  xForwardedFor :: "jsstring option"
  xRealIp :: "jsstring option"
  remoteAddress :: "jsstring option"
  body :: jsval

record env =
  SERPAPI_KEY :: "jsstring option"
  ALLOWED_ORIGINS :: "jsstring option"

text \<open>A reply: the status, the headers set, and the JSON sent (none after \<open>end()\<close>).\<close>

record response =
  status :: nat
  headers :: "(string \<times> jsstring) list"
  payload :: "jsval option"

text \<open>
  The upstream call is given by the name/value pairs that the \<open>searchParams\<close> of its
  URL hold. Its outcome is a rejection of \<open>fetch\<close> (a network failure, or the abort
  of the ten-second timer), or a response with its status and what
  \<open>response.json()\<close> gives.
\<close>

type_synonym query = "(jsstring \<times> jsstring) list"

record upstreamResponse =
  upStatus :: nat
  upStatusText :: jsstring
  upJson :: "js_error + jsval"

datatype fetchOutcome = FetchRejected js_error | FetchResolved upstreamResponse

definition ok :: "upstreamResponse \<Rightarrow> bool" where
  "ok r \<longleftrightarrow> 200 \<le> upStatus r \<and> upStatus r \<le> 299"

text \<open>What one invocation did: its reply and the upstream calls it made.\<close>

record outcome =
  reply :: response
  fetched :: "query list"

definition errorBody :: "jsstring \<Rightarrow> jsval" where
  "errorBody msg = JObj [(lit ''error'', JStr msg)]"

subsection \<open>String conversion\<close>

fun joinWith :: "jsstring \<Rightarrow> jsstring list \<Rightarrow> jsstring" where
  "joinWith sep [] = []"
| "joinWith sep [p] = p"
| "joinWith sep (p # q # ps) = p @ sep @ joinWith sep (q # ps)"

text \<open>
  \<open>String(v)\<close> and the operand conversion of \<open>+\<close>. An array joins its elements with
  commas, \<open>null\<close> and \<open>undefined\<close> elements as empty; an object prints as
  \<open>[object Object]\<close> unless an own \<open>toString\<close> property, never callable here,
  shadows the inherited method, and then the conversion throws.
\<close>

fun toStr :: "runtime \<Rightarrow> jsval \<Rightarrow> js_error + jsstring" where
  "toStr rt JUndefined = Inr (lit ''undefined'')"
| "toStr rt JNull = Inr (lit ''null'')"
| "toStr rt (JBool b) = Inr (if b then lit ''true'' else lit ''false'')"
| "toStr rt (JNum x) = Inr (numberToString rt x)"
| "toStr rt JNaN = Inr (lit ''NaN'')"
| "toStr rt (JInf b) = Inr (if b then lit ''Infinity'' else lit ''-Infinity'')"
| "toStr rt (JStr s) = Inr s"
| "toStr rt (JArr xs) =
     bindE (sequenceE (map (\<lambda>x. if x = JUndefined \<or> x = JNull then Inr [] else toStr rt x) xs))
       (\<lambda>parts. Inr (joinWith (lit '','') parts))"
| "toStr rt (JObj kvs) =
     (if lit ''toString'' \<in> fst ` set kvs then Inl (NotPrimitive (JObj kvs))
      else Inr (lit ''[object Object]''))"

subsection \<open>CORS and client address\<close>

fun splitOn :: "16 word \<Rightarrow> jsstring \<Rightarrow> jsstring list" where
  "splitOn c [] = [[]]"
| "splitOn c (x # xs) =
     (if x = c then [] # splitOn c xs
      else (case splitOn c xs of p # ps \<Rightarrow> (x # p) # ps | [] \<Rightarrow> [[x]]))"

definition getAllowedOrigins :: "env \<Rightarrow> jsstring list" where
  "getAllowedOrigins e =
     (case ALLOWED_ORIGINS e of
        Some envOrigins \<Rightarrow>
          if envOrigins \<noteq> [] then map trim (splitOn 0x2C envOrigins)
          else [lit ''https://www.puckgenius.com'', lit ''https://puckgenius.com'',
                lit ''http://localhost:3000'', lit ''http://127.0.0.1:3000'']
      | None \<Rightarrow>
          [lit ''https://www.puckgenius.com'', lit ''https://puckgenius.com'',
           lit ''http://localhost:3000'', lit ''http://127.0.0.1:3000''])"

definition handleCORS :: "env \<Rightarrow> request \<Rightarrow> (string \<times> jsstring) list" where
  "handleCORS e req =
     (case origin req of
        Some ori \<Rightarrow> if ori \<in> set (getAllowedOrigins e)
                    then [(''Access-Control-Allow-Origin'', ori)] else []
      | None \<Rightarrow> [])
     @ [(''Access-Control-Allow-Methods'', lit ''POST, OPTIONS''),
        (''Access-Control-Allow-Headers'', lit ''Content-Type''),
        (''Access-Control-Max-Age'', lit ''86400'')]"

definition openCORS :: "(string \<times> jsstring) list" where
  "openCORS =
     [(''Access-Control-Allow-Origin'', lit ''*''),
      (''Access-Control-Allow-Methods'', lit ''GET, POST, OPTIONS''),
      (''Access-Control-Allow-Headers'', lit ''Content-Type'')]"

text \<open>The first alternative of the \<open>||\<close> chain that is a non-empty string.\<close>

fun firstTruthy :: "jsstring option list \<Rightarrow> jsstring \<Rightarrow> jsstring" where
  "firstTruthy [] d = d"
| "firstTruthy (None # rest) d = firstTruthy rest d"
| "firstTruthy (Some s # rest) d = (if s \<noteq> [] then s else firstTruthy rest d)"

definition getClientIP :: "request \<Rightarrow> jsstring" where
  "getClientIP req =
     firstTruthy
       [map_option (\<lambda>s. takeWhile (\<lambda>c. c \<noteq> 0x2C) s) (xForwardedFor req),
        xRealIp req,
        remoteAddress req]
       (lit ''127.0.0.1'')"

section \<open>Upstream query\<close>

text \<open>
  \<open>URLSearchParams.append(name, value)\<close> converts both arguments to scalar value
  strings: to a string first, and every surrogate code unit that is not part of a pair
  becomes U+FFFD.
\<close>

definition isHighSurrogate :: "16 word \<Rightarrow> bool" where
  "isHighSurrogate c \<longleftrightarrow> 0xD800 \<le> c \<and> c \<le> 0xDBFF"

definition isLowSurrogate :: "16 word \<Rightarrow> bool" where
  "isLowSurrogate c \<longleftrightarrow> 0xDC00 \<le> c \<and> c \<le> 0xDFFF"

fun toUSV :: "jsstring \<Rightarrow> jsstring" where
  "toUSV [] = []"
| "toUSV [c] = (if isHighSurrogate c \<or> isLowSurrogate c then [0xFFFD] else [c])"
| "toUSV (c # d # rest) =
     (if isHighSurrogate c \<and> isLowSurrogate d then c # d # toUSV rest
      else if isHighSurrogate c \<or> isLowSurrogate c then 0xFFFD # toUSV (d # rest)
      else c # toUSV (d # rest))"

definition appendParam :: "runtime \<Rightarrow> query \<Rightarrow> jsstring \<Rightarrow> jsval \<Rightarrow> js_error + query" where
  "appendParam rt q name v = bindE (toStr rt v) (\<lambda>s. Inr (q @ [(toUSV name, toUSV s)]))"

text \<open>The three \<open>append\<close> calls before the loop; their literals are ASCII.\<close>

definition fixedParams :: "jsstring \<Rightarrow> query" where
  "fixedParams API_KEY =
     [(lit ''engine'', lit ''ebay''),
      (lit ''api_key'', toUSV API_KEY),
      (lit ''ebay_domain'', lit ''ebay.com'')]"

text \<open>The loops' test: the value is none of \<open>null\<close>, \<open>undefined\<close> and the empty string.\<close>

definition forwarded :: "jsval \<Rightarrow> bool" where
  "forwarded v \<longleftrightarrow> v \<noteq> JNull \<and> v \<noteq> JUndefined \<and> v \<noteq> JStr []"

text \<open>
  The \<open>forEach\<close> over \<open>Object.keys(searchParams)\<close> of the two open handlers: each
  key's value is read from the body and handed to \<open>append\<close> as it is
  (\<open>appendParam\<close> here).
\<close>

fun appendParams_verbatim ::
  "runtime \<Rightarrow> jsval \<Rightarrow> jsstring list \<Rightarrow> query \<Rightarrow> js_error + query" where
  "appendParams_verbatim rt searchParams [] q = Inr q"
| "appendParams_verbatim rt searchParams (key # keys) q =
     bindE (getProp searchParams key) (\<lambda>v.
       if forwarded v
       then bindE (appendParam rt q key v) (\<lambda>q'. appendParams_verbatim rt searchParams keys q')
       else appendParams_verbatim rt searchParams keys q)"

definition buildQuery_verbatim :: "runtime \<Rightarrow> jsstring \<Rightarrow> jsval \<Rightarrow> js_error + query" where
  "buildQuery_verbatim rt API_KEY searchParams =
     appendParams_verbatim rt searchParams (map fst (own_entries searchParams))
       (fixedParams API_KEY)"

text \<open>The class \<open>[\w\s.,()-]\<close> of the hardened handler, on code units.\<close>

definition isWordChar :: "16 word \<Rightarrow> bool" where
  "isWordChar c \<longleftrightarrow>
     (0x41 \<le> c \<and> c \<le> 0x5A) \<or> (0x61 \<le> c \<and> c \<le> 0x7A) \<or> (0x30 \<le> c \<and> c \<le> 0x39) \<or> c = 0x5F"

definition allowedChar :: "16 word \<Rightarrow> bool" where
  "allowedChar c \<longleftrightarrow> isWordChar c \<or> isWhiteSpace c \<or> c \<in> {0x2E, 0x2C, 0x28, 0x29, 0x2D}"

definition sanitizeValue :: "jsstring \<Rightarrow> jsstring" where
  "sanitizeValue s = filter allowedChar s"

fun appendParams_sanitized ::
  "runtime \<Rightarrow> jsval \<Rightarrow> jsstring list \<Rightarrow> query \<Rightarrow> js_error + query" where
  "appendParams_sanitized rt searchParams [] q = Inr q"
| "appendParams_sanitized rt searchParams (key # keys) q =
     bindE (getProp searchParams key) (\<lambda>v.
       if forwarded v then
         bindE (toStr rt v) (\<lambda>s.
           let sanitizedValue = sanitizeValue s
           in if sanitizedValue \<noteq> []
              then bindE (appendParam rt q key (JStr sanitizedValue))
                     (\<lambda>q'. appendParams_sanitized rt searchParams keys q')
              else appendParams_sanitized rt searchParams keys q)
       else appendParams_sanitized rt searchParams keys q)"

definition buildQuery_sanitized :: "runtime \<Rightarrow> jsstring \<Rightarrow> jsval \<Rightarrow> js_error + query" where
  "buildQuery_sanitized rt API_KEY searchParams =
     appendParams_sanitized rt searchParams (map fst (own_entries searchParams))
       (fixedParams API_KEY)"

text \<open>
  The query as the specification words it for the sanitizing variant: the fixed
  parameters, then every forwarded pair with its value stripped. \<open>str\<close> is the
  conversion of a value to a string.
\<close>

definition specQuery_sanitized ::
  "(jsval \<Rightarrow> jsstring) \<Rightarrow> jsstring \<Rightarrow> (jsstring \<times> jsval) list \<Rightarrow> query" where
  "specQuery_sanitized str API_KEY kvs =
     fixedParams API_KEY
     @ map (\<lambda>(k, v). (k, sanitizeValue (str v))) (filter (\<lambda>(k, v). forwarded v) kvs)"

section \<open>Handlers\<close>

text \<open>The test \<open>!searchParams._nkw && !searchParams.category_id\<close>.\<close>

definition missingRequired :: "jsval \<Rightarrow> js_error + bool" where
  "missingRequired searchParams =
     bindE (getProp searchParams (lit ''_nkw'')) (\<lambda>nkw.
       if truthy nkw then Inr False
       else bindE (getProp searchParams (lit ''category_id'')) (\<lambda>cat. Inr (\<not> truthy cat)))"

text \<open>
  From the resolved or rejected \<open>fetch\<close> to the reply: a status outside 200..299
  is thrown, an \<open>error\<close> field of the payload is echoed with 400, and otherwise the
  sanitized payload is sent with 200.
\<close>

definition processUpstream ::
  "runtime \<Rightarrow> jsstring \<Rightarrow> (jsval \<Rightarrow> js_error + jsval) \<Rightarrow> fetchOutcome \<Rightarrow> js_error + nat \<times> jsval" where
  "processUpstream rt prefix sanitize out =
     (case out of
        FetchRejected err \<Rightarrow> Inl err
      | FetchResolved r \<Rightarrow>
          if \<not> ok r then
            Inl (Thrown (lit ''SERPAPI request failed: '' @ decimal (upStatus r) @ lit '' ''
                         @ upStatusText r))
          else
            bindE (upJson r) (\<lambda>data.
              bindE (getProp data (lit ''error'')) (\<lambda>err.
                if truthy err then
                  bindE (toStr rt err) (\<lambda>s. Inr (400, errorBody (prefix @ s)))
                else bindE (sanitize data) (\<lambda>d. Inr (200, d)))))"

definition keyNotSet :: "query list \<times> (js_error + nat \<times> jsval)" where
  "keyNotSet = ([], Inr (500, errorBody (lit ''SERPAPI_KEY environment variable not set'')))"

definition requiredMissing :: "query list \<times> (js_error + nat \<times> jsval)" where
  "requiredMissing =
     ([], Inr (400, errorBody (lit ''Search query (_nkw) or category_id is required'')))"

text \<open>
  The \<open>try\<close> region of the hardened handler: the upstream calls made, and the reply
  it returned or the exception it threw.
\<close>

definition tryRegion_hardened ::
  "runtime \<Rightarrow> env \<Rightarrow> (query \<Rightarrow> fetchOutcome) \<Rightarrow> request \<Rightarrow> query list \<times> (js_error + nat \<times> jsval)" where
  "tryRegion_hardened rt e fetch req =
     (case SERPAPI_KEY e of
        None \<Rightarrow> keyNotSet
      | Some API_KEY \<Rightarrow>
          if API_KEY = [] then keyNotSet
          else
            (let searchParams = body req
             in if \<not> truthy searchParams \<or> typeof searchParams \<noteq> ''object'' then
                  ([], Inr (400, errorBody (lit ''Invalid request body'')))
                else
                  (case missingRequired searchParams of
                     Inl err \<Rightarrow> ([], Inl err)
                   | Inr True \<Rightarrow> requiredMissing
                   | Inr False \<Rightarrow>
                       (case buildQuery_sanitized rt API_KEY searchParams of
                          Inl err \<Rightarrow> ([], Inl err)
                        | Inr q \<Rightarrow>
                            ([q], processUpstream rt (lit ''Search failed: '')
                                    (sanitizeData_hardened rt) (fetch q))))))"

definition catch_hardened :: "runtime \<Rightarrow> js_error + nat \<times> jsval \<Rightarrow> nat \<times> jsval" where
  "catch_hardened rt r =
     (case r of
        Inr sent \<Rightarrow> sent
      | Inl err \<Rightarrow>
          if error_name err = ''AbortError'' then
            (408, errorBody (lit ''Search request timed out. Please try again.''))
          else
            (500, errorBody (lit ''Failed to search eBay products: '' @ error_message rt err)))"

definition respond :: "(string \<times> jsstring) list \<Rightarrow> nat \<Rightarrow> jsval option \<Rightarrow> query list \<Rightarrow> outcome" where
  "respond hs st b qs = \<lparr> reply = \<lparr> status = st, headers = hs, payload = b \<rparr>, fetched = qs \<rparr>"

text \<open>
  The rate-limited handler (the first file of \<open>part_000\<close>). \<open>now\<close> is the clock
  read by \<open>checkRateLimit\<close>, \<open>m\<close> the limiter's map before the request; the map
  after it is returned beside the outcome.
\<close>

definition handler_hardened ::
  "runtime \<Rightarrow> env \<Rightarrow> (query \<Rightarrow> fetchOutcome) \<Rightarrow> int \<Rightarrow> rateLimitMap \<Rightarrow> request
     \<Rightarrow> outcome \<times> rateLimitMap" where
  "handler_hardened rt e fetch now m req =
     (let hs = handleCORS e req
      in if reqMethod req = lit ''OPTIONS'' then (respond hs 200 None [], m)
         else if reqMethod req \<noteq> lit ''POST'' then
           (respond hs 405 (Some (errorBody (lit ''Method not allowed''))) [], m)
         else
           (let clientIP = getClientIP req;
                (allowed, m') = checkRateLimit now clientIP m
            in if \<not> allowed then
                 (respond hs 429
                    (Some (JObj [(lit ''error'',
                                  JStr (lit ''Rate limit exceeded. Please wait before making more requests.'')),
                                 (lit ''retryAfter'', JNum 60)])) [],
                  m')
               else
                 (let (qs, r) = tryRegion_hardened rt e fetch req;
                      (st, b) = catch_hardened rt r
                  in (respond hs st (Some b) qs, m'))))"

text \<open>
  The two open handlers (the second file of \<open>part_000\<close> and \<open>api/ebay-search.js\<close>)
  are the same text up to the per-product cleaning, which is the parameter here.
\<close>

definition tryRegion_open ::
  "runtime \<Rightarrow> env \<Rightarrow> (query \<Rightarrow> fetchOutcome) \<Rightarrow> (jsval \<Rightarrow> js_error + jsval) \<Rightarrow> request
     \<Rightarrow> query list \<times> (js_error + nat \<times> jsval)" where
  "tryRegion_open rt e fetch cleanProduct req =
     (case SERPAPI_KEY e of
        None \<Rightarrow> keyNotSet
      | Some API_KEY \<Rightarrow>
          if API_KEY = [] then keyNotSet
          else
            (let searchParams = body req
             in case missingRequired searchParams of
                  Inl err \<Rightarrow> ([], Inl err)
                | Inr True \<Rightarrow> requiredMissing
                | Inr False \<Rightarrow>
                    (case buildQuery_verbatim rt API_KEY searchParams of
                       Inl err \<Rightarrow> ([], Inl err)
                     | Inr q \<Rightarrow>
                         ([q], processUpstream rt (lit ''SERPAPI Error: '')
                                 (sanitizeData_open cleanProduct) (fetch q)))))"

definition catch_open :: "runtime \<Rightarrow> js_error + nat \<times> jsval \<Rightarrow> nat \<times> jsval" where
  "catch_open rt r =
     (case r of
        Inr sent \<Rightarrow> sent
      | Inl err \<Rightarrow>
          (500, errorBody (lit ''Failed to search eBay products: '' @ error_message rt err)))"

definition handler_open ::
  "runtime \<Rightarrow> env \<Rightarrow> (query \<Rightarrow> fetchOutcome) \<Rightarrow> (jsval \<Rightarrow> js_error + jsval) \<Rightarrow> request \<Rightarrow> outcome" where
  "handler_open rt e fetch cleanProduct req =
     (if reqMethod req = lit ''OPTIONS'' then respond openCORS 200 None []
      else if reqMethod req \<noteq> lit ''POST'' then
        respond openCORS 405 (Some (errorBody (lit ''Method not allowed''))) []
      else
        (let (qs, r) = tryRegion_open rt e fetch cleanProduct req;
             (st, b) = catch_open rt r
         in respond openCORS st (Some b) qs))"

definition handler_comprehensive ::
  "runtime \<Rightarrow> env \<Rightarrow> (query \<Rightarrow> fetchOutcome) \<Rightarrow> request \<Rightarrow> outcome" where
  "handler_comprehensive rt e fetch = handler_open rt e fetch (cleanProduct_comprehensive rt)"

definition handler_inline ::
  "runtime \<Rightarrow> env \<Rightarrow> (query \<Rightarrow> fetchOutcome) \<Rightarrow> request \<Rightarrow> outcome" where
  "handler_inline rt e fetch = handler_open rt e fetch (cleanProduct_inline rt)"

section \<open>Closed examples\<close>

text \<open>
  An environment with the key configured, a request with no headers, and an upstream
  that answers every query with one product; the closed examples below run the
  handlers on them.
\<close>

definition exampleEnv :: env where
  "exampleEnv = \<lparr> SERPAPI_KEY = Some (lit ''secret''), ALLOWED_ORIGINS = None \<rparr>"

definition exampleRequest :: "jsstring \<Rightarrow> jsval \<Rightarrow> request" where
  "exampleRequest m b =
     \<lparr> reqMethod = m, origin = None, xForwardedFor = None, xRealIp = None, remoteAddress = None,
       body = b \<rparr>"

definition exampleProduct :: jsval where
  "exampleProduct =
     JObj [(lit ''title'', JStr (lit ''A'')),
           (lit ''price'', JObj [(lit ''extracted_value'', JNum 20)]),
           (lit ''shipping'', JObj [(lit ''cost'', JNum 5)])]"

definition exampleFetch :: "query \<Rightarrow> fetchOutcome" where
  "exampleFetch q =
     FetchResolved \<lparr> upStatus = 200, upStatusText = lit ''OK'',
                     upJson = Inr (JObj [(lit ''organic_results'', JArr [exampleProduct])]) \<rparr>"

section \<open>Properties of the price cleaning\<close>

lemma toFixed2_number: "typeof v = ''number'' \<Longrightarrow> \<exists>s. toFixed2 rt v = Inr s"
  by (cases v) simp_all

lemma getProp_truthy: "truthy v \<Longrightarrow> \<exists>x. getProp v k = Inr x"
  by (cases v) simp_all

text \<open>
  The simplified \<open>cleanPriceField\<close> returns on every value: it calls \<open>toFixed\<close> only
  after \<open>typeof\<close> found a number.
\<close>

lemma cleanPriceField_simplified_total: "\<exists>s. cleanPriceField_simplified rt v = Inr s"
proof -
  obtain f where f: "\<And>x. typeof x = ''number'' \<Longrightarrow> toFixed2 rt x = Inr (f x)"
    using toFixed2_number [of _ rt] by metis
  show ?thesis
  proof (cases "truthy v")
    case True
    then obtain r e where
      "getProp v (lit ''raw'') = Inr r" "getProp v (lit ''extracted_value'') = Inr e"
      using getProp_truthy by blast
    then show ?thesis by (simp add: cleanPriceField_simplified_def bindE_def f)
  next
    case False
    then show ?thesis by (simp add: cleanPriceField_simplified_def)
  qed
qed

lemma cleanPriceField_simplified_fallback:
  "typeof v \<noteq> ''string'' \<Longrightarrow> typeof v \<noteq> ''object'' \<Longrightarrow>
     cleanPriceField_simplified rt v = Inr priceNotAvailable"
  by (simp add: cleanPriceField_simplified_def)

lemma cleanPriceField_comprehensive_fallback:
  "typeof v \<noteq> ''string'' \<Longrightarrow> typeof v \<noteq> ''object'' \<Longrightarrow>
     cleanPriceField_comprehensive rt v = Inr priceNotAvailable"
  by (simp add: cleanPriceField_comprehensive_def)

lemma cleanPriceField_named_fallbacks:
  "cleanPriceField_simplified rt (JObj []) = Inr priceNotAvailable
   \<and> cleanPriceField_simplified rt JNull = Inr priceNotAvailable
   \<and> cleanPriceField_simplified rt (JNum 42) = Inr priceNotAvailable
   \<and> cleanPriceField_comprehensive rt (JObj []) = Inr priceNotAvailable
   \<and> cleanPriceField_comprehensive rt JNull = Inr priceNotAvailable
   \<and> cleanPriceField_comprehensive rt (JNum 42) = Inr priceNotAvailable"
  by (simp add: cleanPriceField_simplified_def cleanPriceField_comprehensive_def bindE_def
      numAttempt_def)

text \<open>
  C1. The comprehensive \<open>cleanPriceField\<close> is not total: on the price object
  \<open>{extracted_value: "12.5"}\<close> the candidate is truthy, its \<open>toFixed\<close> is called,
  and a string has no such method, so the function throws a \<open>TypeError\<close> instead of
  returning the fallback. The simplified variant tests \<open>typeof\<close> first and returns
  on every value (\<open>cleanPriceField_simplified_total\<close>).
\<close>

theorem cleanPriceField_comprehensive_throws:
  "cleanPriceField_comprehensive rt (JObj [(lit ''extracted_value'', JStr (lit ''12.5''))])
     = Inl (NotAFunction (JStr (lit ''12.5'')) (lit ''toFixed''))"
  by code_simp

theorem cleanPriceField_comprehensive_throws_witness:
  "cleanPriceField_comprehensive exampleRuntime
     (JObj [(lit ''extracted_value'', JStr (lit ''12.5''))])
     = Inl (NotAFunction (JStr (lit ''12.5'')) (lit ''toFixed''))"
  using cleanPriceField_comprehensive_throws [of exampleRuntime] by simp

lemma cleanPriceField_comprehensive_string: "cleanPriceField_comprehensive rt (JStr s) = Inr s"
  by (simp add: cleanPriceField_comprehensive_def)

lemma cleanPriceField_simplified_string:
  "cleanPriceField_simplified rt (JStr s)
     = Inr (if trim s = [] then priceNotAvailable else trim s)"
  by (simp add: cleanPriceField_simplified_def)

text \<open>
  C2, as stated, fails: the trimmed variant does not return a blank string trimmed (that
  would be the empty string) but the fallback.
\<close>

theorem cleanPriceField_blank_string_counterexample:
  "cleanPriceField_simplified exampleRuntime (JStr (lit '' '')) \<noteq> Inr (trim (lit '' ''))"
  by code_simp

text \<open>
  C2, amended. On a string the comprehensive variant returns it unchanged; the trimmed
  variant returns it trimmed when something is left, and \<open>Price not available\<close> when
  the string is empty or all white space. Both return \<open>$9.99\<close> on \<open>{raw: "$9.99"}\<close>
  and \<open>$12.50\<close> on \<open>{extracted_value: 12.5}\<close>.
\<close>

theorem cleanPriceField_display:
  "cleanPriceField_comprehensive rt (JStr s) = Inr s
   \<and> cleanPriceField_simplified rt (JStr s)
       = Inr (if trim s = [] then priceNotAvailable else trim s)
   \<and> cleanPriceField_comprehensive rt (JObj [(lit ''raw'', JStr (lit ''$9.99''))])
       = Inr (lit ''$9.99'')
   \<and> cleanPriceField_simplified rt (JObj [(lit ''raw'', JStr (lit ''$9.99''))])
       = Inr (lit ''$9.99'')
   \<and> cleanPriceField_comprehensive rt (JObj [(lit ''extracted_value'', JNum (25 / 2))])
       = Inr (lit ''$12.50'')
   \<and> cleanPriceField_simplified rt (JObj [(lit ''extracted_value'', JNum (25 / 2))])
       = Inr (lit ''$12.50'')"
proof -
  have a: "cleanPriceField_comprehensive rt (JObj [(lit ''raw'', JStr (lit ''$9.99''))])
             = Inr (lit ''$9.99'')"
    by code_simp
  have b: "cleanPriceField_simplified rt (JObj [(lit ''raw'', JStr (lit ''$9.99''))])
             = Inr (lit ''$9.99'')"
    by code_simp
  have c: "cleanPriceField_comprehensive rt (JObj [(lit ''extracted_value'', JNum (25 / 2))])
             = Inr (lit ''$12.50'')"
    by code_simp
  have d: "cleanPriceField_simplified rt (JObj [(lit ''extracted_value'', JNum (25 / 2))])
             = Inr (lit ''$12.50'')"
    by code_simp
  show ?thesis
    using a b c d cleanPriceField_comprehensive_string cleanPriceField_simplified_string
    by simp
qed

theorem cleanPriceField_display_witness:
  "cleanPriceField_comprehensive exampleRuntime (JStr (lit '' $5 '')) = Inr (lit '' $5 '')
   \<and> cleanPriceField_simplified exampleRuntime (JStr (lit '' $5 '')) = Inr (lit ''$5'')
   \<and> cleanPriceField_simplified exampleRuntime (JStr (lit '' '')) = Inr priceNotAvailable"
proof -
  have t1: "trim (lit '' $5 '') = lit ''$5''" by code_simp
  have t2: "trim (lit '' '') = []" by code_simp
  have n: "lit ''$5'' \<noteq> []" by code_simp
  show ?thesis
    using cleanPriceField_display [of exampleRuntime "lit '' $5 ''"]
      cleanPriceField_display [of exampleRuntime "lit '' ''"]
    by (simp add: t1 t2 n)
qed

section \<open>Properties of the handlers\<close>

text \<open>
  C8. A request whose method is neither \<open>POST\<close> nor \<open>OPTIONS\<close> is answered with
  405 and \<open>{error: "Method not allowed"}\<close> by each handler; no upstream call is made
  and the limiter's map is left as it was.
\<close>

theorem method_not_allowed:
  assumes "reqMethod req \<noteq> lit ''POST''" and "reqMethod req \<noteq> lit ''OPTIONS''"
  shows "handler_hardened rt e fetch now m req
           = (\<lparr> reply = \<lparr> status = 405, headers = handleCORS e req,
                          payload = Some (JObj [(lit ''error'', JStr (lit ''Method not allowed''))]) \<rparr>,
                fetched = [] \<rparr>, m)
         \<and> handler_comprehensive rt e fetch req
           = \<lparr> reply = \<lparr> status = 405, headers = openCORS,
                         payload = Some (JObj [(lit ''error'', JStr (lit ''Method not allowed''))]) \<rparr>,
               fetched = [] \<rparr>
         \<and> handler_inline rt e fetch req
           = \<lparr> reply = \<lparr> status = 405, headers = openCORS,
                         payload = Some (JObj [(lit ''error'', JStr (lit ''Method not allowed''))]) \<rparr>,
               fetched = [] \<rparr>"
  using assms
  by (simp add: handler_hardened_def handler_comprehensive_def handler_inline_def
      handler_open_def errorBody_def respond_def Let_def)

theorem method_not_allowed_witness:
  "reqMethod (exampleRequest (lit ''GET'') JNull) \<noteq> lit ''POST''
   \<and> reqMethod (exampleRequest (lit ''GET'') JNull) \<noteq> lit ''OPTIONS''
   \<and> status (reply (fst (handler_hardened exampleRuntime exampleEnv exampleFetch 0 []
                            (exampleRequest (lit ''GET'') JNull)))) = 405
   \<and> status (reply (handler_comprehensive exampleRuntime exampleEnv exampleFetch
                       (exampleRequest (lit ''GET'') JNull))) = 405
   \<and> fetched (handler_inline exampleRuntime exampleEnv exampleFetch
                 (exampleRequest (lit ''GET'') JNull)) = []"
proof -
  have p: "reqMethod (exampleRequest (lit ''GET'') JNull) \<noteq> lit ''POST''"
    by (simp add: exampleRequest_def lit_def)
  have q: "reqMethod (exampleRequest (lit ''GET'') JNull) \<noteq> lit ''OPTIONS''"
    by (simp add: exampleRequest_def lit_def)
  show ?thesis
    using p q method_not_allowed [OF p q, of exampleRuntime exampleEnv exampleFetch 0 "[]"]
    by simp
qed

section \<open>Properties of the rate limiter\<close>

lemma set_update_subset: "set (AList.update k v al) \<subseteq> insert (k, v) (set al)"
  by (induction al) auto

text \<open>The four cases of one call, for the calling client's entry.\<close>

lemma checkRateLimit_fresh:
  assumes "map_of m ip = None"
  shows "fst (checkRateLimit now ip m) = True
         \<and> map_of (snd (checkRateLimit now ip m)) ip
             = Some \<lparr> requests = 1, resetTime = now + 60000 \<rparr>"
  using assms
  by (simp add: checkRateLimit_def Let_def RATE_LIMIT_WINDOW_MS_def RATE_LIMIT_MAX_REQUESTS_def
      update_conv' map_of_filter_in)

lemma checkRateLimit_expired:
  assumes "map_of m ip = Some d" and "resetTime d < now"
  shows "fst (checkRateLimit now ip m) = True
         \<and> map_of (snd (checkRateLimit now ip m)) ip
             = Some \<lparr> requests = 1, resetTime = now + 60000 \<rparr>"
  using assms
  by (simp add: checkRateLimit_def Let_def RATE_LIMIT_WINDOW_MS_def RATE_LIMIT_MAX_REQUESTS_def
      update_conv' map_of_filter_in)

lemma checkRateLimit_counts:
  assumes "map_of m ip = Some d" and "now \<le> resetTime d" and "requests d < 30"
  shows "fst (checkRateLimit now ip m) = True
         \<and> map_of (snd (checkRateLimit now ip m)) ip
             = Some (d \<lparr> requests := requests d + 1 \<rparr>)"
  using assms
  by (simp add: checkRateLimit_def Let_def RATE_LIMIT_WINDOW_MS_def RATE_LIMIT_MAX_REQUESTS_def
      update_conv' map_of_filter_in)

lemma checkRateLimit_limited:
  assumes "map_of m ip = Some d" and "now \<le> resetTime d" and "30 \<le> requests d"
  shows "checkRateLimit now ip m = (False, m)"
  using assms
  by (simp add: checkRateLimit_def Let_def RATE_LIMIT_WINDOW_MS_def RATE_LIMIT_MAX_REQUESTS_def)

text \<open>
  A call of another client leaves a client's entry as it is, as long as the sweep does
  not find the entry older than the window.
\<close>

lemma checkRateLimit_other:
  assumes "c \<noteq> ip" and "map_of m ip = Some d" and "now - 60000 \<le> resetTime d"
  shows "map_of (snd (checkRateLimit now c m)) ip = Some d"
  using assms
  by (simp add: checkRateLimit_def Let_def RATE_LIMIT_WINDOW_MS_def update_conv'
      map_of_filter_in)

lemma checkAll_Cons_fst:
  "fst (checkAll ((now, c) # calls) m)
     = fst (checkRateLimit now c m) # fst (checkAll calls (snd (checkRateLimit now c m)))"
  by (simp add: case_prod_unfold Let_def)

lemma checkAll_Cons_snd:
  "snd (checkAll ((now, c) # calls) m) = snd (checkAll calls (snd (checkRateLimit now c m)))"
  by (simp add: case_prod_unfold Let_def)

text \<open>
  A run of calls of any clients, all inside the window of one client's entry: that
  client's calls are allowed until its counter reaches 30 and refused from then on,
  whatever the other clients do in between.
\<close>

lemma checkAll_interleaved:
  assumes "map_of m ip = Some \<lparr> requests = k, resetTime = r \<rparr>" and "k \<le> 30"
    and "\<forall>(t, c) \<in> set calls. t \<le> r"
  shows "map snd (filter (\<lambda>((t, c), a). c = ip) (zip calls (fst (checkAll calls m))))
           = replicate (min (30 - k) (length (filter (\<lambda>(t, c). c = ip) calls))) True
             @ replicate (length (filter (\<lambda>(t, c). c = ip) calls) - (30 - k)) False
         \<and> map_of (snd (checkAll calls m)) ip
             = Some \<lparr> requests = min 30 (k + length (filter (\<lambda>(t, c). c = ip) calls)),
                      resetTime = r \<rparr>"
  using assms
proof (induction calls arbitrary: m k)
  case Nil
  then show ?case by simp
next
  case (Cons call calls)
  obtain t c where call: "call = (t, c)" by (cases call)
  let ?d = "\<lparr> requests = k, resetTime = r \<rparr>"
  let ?m' = "snd (checkRateLimit t c m)"
  have t: "t \<le> r" and rest: "\<forall>(t, c) \<in> set calls. t \<le> r"
    using Cons.prems(3) call by auto
  show ?case
  proof (cases "c = ip")
    case False
    have keep: "map_of ?m' ip = Some ?d"
      using checkRateLimit_other [OF False Cons.prems(1), of t] t by simp
    show ?thesis
      using Cons.IH [OF keep Cons.prems(2) rest] False
      by (simp add: call checkAll_Cons_fst checkAll_Cons_snd del: checkAll.simps)
  next
    case True
    show ?thesis
    proof (cases "k < 30")
      case less: True
      have step: "fst (checkRateLimit t ip m) = True
          \<and> map_of (snd (checkRateLimit t ip m)) ip
              = Some \<lparr> requests = Suc k, resetTime = r \<rparr>"
        using checkRateLimit_counts [of m ip ?d t] Cons.prems(1) t less by simp
      have k': "Suc k \<le> 30" using less by simp
      have a: "30 - k = Suc (30 - Suc k)" using less by simp
      show ?thesis
        using Cons.IH [of "snd (checkRateLimit t ip m)" "Suc k"] step k' rest True
        by (simp add: call checkAll_Cons_fst checkAll_Cons_snd a del: checkAll.simps)
    next
      case False
      then have k30: "k = 30" using Cons.prems(2) by simp
      have step: "checkRateLimit t ip m = (False, m)"
        using checkRateLimit_limited [of m ip ?d t] Cons.prems(1) t k30 by simp
      show ?thesis
        using Cons.IH [OF Cons.prems(1) Cons.prems(2) rest] True k30
        by (simp add: call checkAll_Cons_fst checkAll_Cons_snd step del: checkAll.simps)
    qed
  qed
qed

text \<open>
  C6. The window is 60000 ms and the maximum 30 requests per IP. Let a client's call
  at \<open>t0\<close> open a window (the client has no entry, or its entry has expired), and
  let any run of further calls follow, of this client and of any other clients in any
  order, none later than \<open>t0 + 60000\<close>; \<open>n\<close> of them are this client's. Then the
  answers to this client, in order, are \<open>allowed\<close> for its calls 1 to 30 and
  \<open>not allowed\<close> for every call after them; its counter ends at the number of its
  calls, or at 30 if there were more (a refused call does not increment it, and
  when it stands at 30 a further call inside the window is refused and leaves the map
  as it was); and a call of the client after \<open>t0 + 60000\<close> is allowed again.
\<close>

theorem fixed_window_limit:
  assumes start: "map_of m ip = None \<or> (\<exists>d. map_of m ip = Some d \<and> resetTime d < t0)"
    and within: "\<forall>(t, c) \<in> set calls. t \<le> t0 + 60000"
    and count: "length (filter (\<lambda>(t, c). c = ip) calls) = n"
    and later: "t0 + 60000 < t'"
  shows "map snd (filter (\<lambda>((t, c), a). c = ip)
                    (zip ((t0, ip) # calls) (fst (checkAll ((t0, ip) # calls) m))))
           = replicate (min 30 (Suc n)) True @ replicate (Suc n - 30) False
         \<and> map_of (snd (checkAll ((t0, ip) # calls) m)) ip
             = Some \<lparr> requests = min 30 (Suc n), resetTime = t0 + 60000 \<rparr>
         \<and> (30 \<le> Suc n \<and> t31 \<le> t0 + 60000 \<longrightarrow>
               checkRateLimit t31 ip (snd (checkAll ((t0, ip) # calls) m))
                 = (False, snd (checkAll ((t0, ip) # calls) m)))
         \<and> fst (checkRateLimit t' ip (snd (checkAll ((t0, ip) # calls) m))) = True"
proof -
  let ?m1 = "snd (checkRateLimit t0 ip m)"
  let ?mf = "snd (checkAll calls ?m1)"
  let ?df = "\<lparr> requests = min 30 (Suc n), resetTime = t0 + 60000 \<rparr>"
  have first: "fst (checkRateLimit t0 ip m) = True
      \<and> map_of ?m1 ip = Some \<lparr> requests = 1, resetTime = t0 + 60000 \<rparr>"
    using start checkRateLimit_fresh [of m ip t0] checkRateLimit_expired [of m ip _ t0]
    by blast
  have run: "map snd (filter (\<lambda>((t, c), a). c = ip) (zip calls (fst (checkAll calls ?m1))))
           = replicate (min 29 n) True @ replicate (n - 29) False
         \<and> map_of ?mf ip = Some ?df"
    using checkAll_interleaved [of ?m1 ip 1 "t0 + 60000" calls] first within count by simp
  have answers: "map snd (filter (\<lambda>((t, c), a). c = ip)
                    (zip ((t0, ip) # calls) (fst (checkAll ((t0, ip) # calls) m))))
           = replicate (min 30 (Suc n)) True @ replicate (Suc n - 30) False"
    using first run by (simp add: checkAll_Cons_fst checkAll_Cons_snd del: checkAll.simps)
  have final: "snd (checkAll ((t0, ip) # calls) m) = ?mf"
    by (simp add: checkAll_Cons_snd del: checkAll.simps)
  have entry: "map_of ?mf ip = Some ?df"
    using run by blast
  have blocked: "30 \<le> Suc n \<and> t31 \<le> t0 + 60000
      \<longrightarrow> checkRateLimit t31 ip ?mf = (False, ?mf)"
    using checkRateLimit_limited [OF entry, of t31] by simp
  have again: "fst (checkRateLimit t' ip ?mf) = True"
    using checkRateLimit_expired [OF entry, of t'] later by simp
  show ?thesis
    unfolding final using answers [unfolded final] entry blocked again
    by (simp add: checkAll_Cons_fst del: checkAll.simps)
qed

text \<open>Two clients taking turns, 31 calls of the first and 30 of the second in one window.\<close>

theorem fixed_window_limit_witness:
  "length (filter (\<lambda>(t, c). c = lit ''10.0.0.1'')
             (concat (replicate 30 [(1000 :: int, lit ''10.0.0.1''), (2000, lit ''10.0.0.2'')])))
     = 30
   \<and> map snd (filter (\<lambda>((t, c), a). c = lit ''10.0.0.1'')
        (zip ((0 :: int, lit ''10.0.0.1'')
                # concat (replicate 30 [(1000, lit ''10.0.0.1''), (2000, lit ''10.0.0.2'')]))
             (fst (checkAll ((0, lit ''10.0.0.1'')
                # concat (replicate 30 [(1000, lit ''10.0.0.1''), (2000, lit ''10.0.0.2'')])) []))))
       = replicate 30 True @ [False]
   \<and> map_of (snd (checkAll ((0, lit ''10.0.0.1'')
                # concat (replicate 30 [(1000, lit ''10.0.0.1''), (2000, lit ''10.0.0.2'')])) []))
         (lit ''10.0.0.1'')
       = Some \<lparr> requests = 30, resetTime = 60000 \<rparr>
   \<and> checkRateLimit 60000 (lit ''10.0.0.1'')
         (snd (checkAll ((0, lit ''10.0.0.1'')
                # concat (replicate 30 [(1000, lit ''10.0.0.1''), (2000, lit ''10.0.0.2'')])) []))
       = (False,
          snd (checkAll ((0, lit ''10.0.0.1'')
                # concat (replicate 30 [(1000, lit ''10.0.0.1''), (2000, lit ''10.0.0.2'')])) []))
   \<and> fst (checkRateLimit 60001 (lit ''10.0.0.1'')
              (snd (checkAll ((0, lit ''10.0.0.1'')
                # concat (replicate 30 [(1000, lit ''10.0.0.1''), (2000, lit ''10.0.0.2'')])) [])))
       = True"
proof -
  let ?A = "lit ''10.0.0.1''"
  let ?calls = "concat (replicate 30 [(1000 :: int, lit ''10.0.0.1''), (2000, lit ''10.0.0.2'')])"
  have start: "map_of [] ?A = (None :: clientData option)
      \<or> (\<exists>d :: clientData. map_of [] ?A = Some d \<and> resetTime d < 0)"
    by simp
  have within: "\<forall>(t, c) \<in> set ?calls. t \<le> 0 + 60000"
    by auto
  have count: "length (filter (\<lambda>(t, c). c = ?A) ?calls) = 30"
    by code_simp
  have later: "(0 :: int) + 60000 < 60001"
    by simp
  have shape: "replicate (min 30 (Suc 30)) True @ replicate (Suc 30 - 30) False
      = replicate 30 True @ [False]"
    by simp
  show ?thesis
    using fixed_window_limit [OF start within count later, of 60000] count
    unfolding shape by (simp del: checkAll.simps)
qed

text \<open>One call keeps every stored counter at or below the maximum.\<close>

lemma checkRateLimit_bounded:
  assumes "\<forall>(ip, d) \<in> set m. requests d \<le> 30"
  shows "\<forall>(ip, d) \<in> set (snd (checkRateLimit now c m)). requests d \<le> 30"
  using assms
  by (auto simp: checkRateLimit_def Let_def RATE_LIMIT_MAX_REQUESTS_def
      split: option.splits dest!: set_mp [OF set_update_subset])

text \<open>
  C9. In every state of \<open>rateLimitMap\<close> reachable from the empty map by calls of
  \<open>checkRateLimit\<close>, every stored entry's \<open>requests\<close> counter is at most
  \<open>RATE_LIMIT_MAX_REQUESTS\<close>, which is 30.
\<close>

theorem requests_bounded:
  assumes "reachable m"
  shows "RATE_LIMIT_MAX_REQUESTS = 30
         \<and> (\<forall>(ip, d) \<in> set m. requests d \<le> RATE_LIMIT_MAX_REQUESTS)"
proof -
  have "\<forall>(ip, d) \<in> set m. requests d \<le> 30"
    using assms
  proof (induction rule: reachable.induct)
    case reachable_empty
    show ?case by simp
  next
    case (reachable_step m now ip)
    then show ?case using checkRateLimit_bounded by blast
  qed
  then show ?thesis by (simp add: RATE_LIMIT_MAX_REQUESTS_def)
qed

theorem requests_bounded_witness:
  "reachable (snd (checkRateLimit 5 (lit ''10.0.0.1'') []))
   \<and> snd (checkRateLimit 5 (lit ''10.0.0.1'') [])
       = [(lit ''10.0.0.1'', \<lparr> requests = 1, resetTime = 60005 \<rparr>)]
   \<and> list_all (\<lambda>(ip, d). requests d \<le> RATE_LIMIT_MAX_REQUESTS)
       (snd (checkRateLimit 5 (lit ''10.0.0.1'') []))"
proof -
  have r: "reachable (snd (checkRateLimit 5 (lit ''10.0.0.1'') []))"
    by (rule reachable_step [OF reachable_empty])
  have v: "snd (checkRateLimit 5 (lit ''10.0.0.1'') [])
      = [(lit ''10.0.0.1'', \<lparr> requests = 1, resetTime = 60005 \<rparr>)]"
    by (simp add: checkRateLimit_def Let_def RATE_LIMIT_WINDOW_MS_def
        RATE_LIMIT_MAX_REQUESTS_def)
  show ?thesis
    using r v requests_bounded [OF r] by (simp add: list_all_iff)
qed

text \<open>The map never holds two entries for one client.\<close>

lemma reachable_distinct: "reachable m \<Longrightarrow> distinct (map fst m)"
proof (induction rule: reachable.induct)
  case reachable_empty
  show ?case by simp
next
  case (reachable_step m now ip)
  then show ?case
    by (simp add: checkRateLimit_def Let_def distinct_update distinct_map_filter)
qed

section \<open>Properties of the response sanitizer\<close>

lemma price_not_shipping: "lit ''price'' \<noteq> lit ''shipping''"
  by (simp add: lit_def)

lemma bindE_Inr_iff: "bindE m f = Inr y \<longleftrightarrow> (\<exists>x. m = Inr x \<and> f x = Inr y)"
  by (cases m) (simp_all add: bindE_def)

lemma mapE_Nil: "mapE f [] = Inr []"
  by (simp add: mapE_def)

lemma mapE_Cons: "mapE f (x # xs) = bindE (f x) (\<lambda>y. bindE (mapE f xs) (\<lambda>ys. Inr (y # ys)))"
  by (simp add: mapE_def)

text \<open>What a cleaned product is, whenever the cleaning returns.\<close>

lemma cleanProduct_with_shape:
  assumes "cleanProduct_with f product = Inr q"
  shows "\<exists>v p. getProp (JObj (AList.delete (lit ''shipping'') (own_entries product)))
                  (lit ''price'') = Inr v
           \<and> f v = Inr p
           \<and> q = JObj (AList.update (lit ''price'') (JStr p)
                        (AList.delete (lit ''shipping'') (own_entries product)))"
  using assms by (auto simp: cleanProduct_with_def Let_def bindE_Inr_iff)

lemma frame_entries:
  fixes kvs :: "(jsstring \<times> jsval) list"
  shows "map_of (AList.update (lit ''price'') v (AList.delete (lit ''shipping'') kvs))
           (lit ''shipping'') = None"
    and "k \<noteq> lit ''shipping'' \<Longrightarrow> k \<noteq> lit ''price'' \<Longrightarrow>
          map_of (AList.update (lit ''price'') v (AList.delete (lit ''shipping'') kvs)) k
            = map_of kvs k"
    and "map_of (AList.delete (lit ''shipping'') kvs) (lit ''shipping'') = None"
    and "k \<noteq> lit ''shipping'' \<Longrightarrow> map_of (AList.delete (lit ''shipping'') kvs) k = map_of kvs k"
  using price_not_shipping by (simp_all add: update_conv' delete_conv')

lemma cleanProduct_with_frame:
  assumes "cleanProduct_with f (JObj kvs) = Inr r"
  shows "\<exists>out. r = JObj out \<and> map_of out (lit ''shipping'') = None
           \<and> (\<forall>k. k \<noteq> lit ''shipping'' \<and> k \<noteq> lit ''price'' \<longrightarrow> map_of out k = map_of kvs k)"
  using cleanProduct_with_shape [OF assms] by (auto simp: frame_entries)

lemma cleanProduct_inline_frame:
  assumes "cleanProduct_inline rt (JObj kvs) = Inr r"
  shows "\<exists>out. r = JObj out \<and> map_of out (lit ''shipping'') = None
           \<and> (\<forall>k. k \<noteq> lit ''shipping'' \<and> k \<noteq> lit ''price'' \<longrightarrow> map_of out k = map_of kvs k)"
  using assms
  by (auto simp: cleanProduct_inline_def Let_def bindE_Inr_iff frame_entries split: if_splits)

lemma cleanProduct_simplified_total: "\<exists>r. cleanProduct_simplified rt product = Inr r"
proof -
  obtain s where
    "cleanPriceField_simplified rt
       (case map_of (AList.delete (lit ''shipping'') (own_entries product)) (lit ''price'') of
          Some x \<Rightarrow> x
        | None \<Rightarrow> JUndefined) = Inr s"
    using cleanPriceField_simplified_total by blast
  then show ?thesis
    by (simp add: cleanProduct_simplified_def cleanProduct_with_def Let_def bindE_def)
qed

text \<open>
  C5, as stated, fails on \<open>price\<close>: the sanitizer replaces a price object by its
  display string, so that field of the input is not in the output unchanged.
\<close>

theorem cleanProduct_price_counterexample:
  "getProp exampleProduct (lit ''price'') = Inr (JObj [(lit ''extracted_value'', JNum 20)])
   \<and> cleanProduct_simplified exampleRuntime exampleProduct
       = Inr (JObj [(lit ''title'', JStr (lit ''A'')), (lit ''price'', JStr (lit ''$20.00''))])
   \<and> getProp (JObj [(lit ''title'', JStr (lit ''A'')), (lit ''price'', JStr (lit ''$20.00''))])
         (lit ''price'')
       = Inr (JStr (lit ''$20.00''))
   \<and> JStr (lit ''$20.00'') \<noteq> JObj [(lit ''extracted_value'', JNum 20)]"
  by code_simp

text \<open>
  C5, amended. Whenever the sanitizer returns a record for a product record (the one
  of the rate-limited handler always does), the record has no \<open>shipping\<close> field, and
  every field of the input other than \<open>shipping\<close> and \<open>price\<close> is present in it with
  its value unchanged.
\<close>

theorem cleanProduct_frame:
  "(\<exists>out. cleanProduct_simplified rt (JObj kvs) = Inr (JObj out)
        \<and> map_of out (lit ''shipping'') = None
        \<and> (\<forall>k. k \<noteq> lit ''shipping'' \<and> k \<noteq> lit ''price'' \<longrightarrow> map_of out k = map_of kvs k))
   \<and> (cleanProduct_comprehensive rt (JObj kvs) = Inr r \<longrightarrow>
        (\<exists>out. r = JObj out
           \<and> map_of out (lit ''shipping'') = None
           \<and> (\<forall>k. k \<noteq> lit ''shipping'' \<and> k \<noteq> lit ''price'' \<longrightarrow> map_of out k = map_of kvs k)))
   \<and> (cleanProduct_inline rt (JObj kvs) = Inr r' \<longrightarrow>
        (\<exists>out. r' = JObj out
           \<and> map_of out (lit ''shipping'') = None
           \<and> (\<forall>k. k \<noteq> lit ''shipping'' \<and> k \<noteq> lit ''price'' \<longrightarrow> map_of out k = map_of kvs k)))"
proof -
  obtain q where q: "cleanProduct_simplified rt (JObj kvs) = Inr q"
    using cleanProduct_simplified_total by blast
  have a: "\<exists>out. cleanProduct_simplified rt (JObj kvs) = Inr (JObj out)
        \<and> map_of out (lit ''shipping'') = None
        \<and> (\<forall>k. k \<noteq> lit ''shipping'' \<and> k \<noteq> lit ''price'' \<longrightarrow> map_of out k = map_of kvs k)"
    using cleanProduct_with_frame [of "cleanPriceField_simplified rt" kvs q] q
    by (auto simp: cleanProduct_simplified_def)
  have b: "cleanProduct_comprehensive rt (JObj kvs) = Inr r \<longrightarrow>
        (\<exists>out. r = JObj out
           \<and> map_of out (lit ''shipping'') = None
           \<and> (\<forall>k. k \<noteq> lit ''shipping'' \<and> k \<noteq> lit ''price'' \<longrightarrow> map_of out k = map_of kvs k))"
    using cleanProduct_with_frame [of "cleanPriceField_comprehensive rt" kvs r]
    by (simp add: cleanProduct_comprehensive_def)
  have c: "cleanProduct_inline rt (JObj kvs) = Inr r' \<longrightarrow>
        (\<exists>out. r' = JObj out
           \<and> map_of out (lit ''shipping'') = None
           \<and> (\<forall>k. k \<noteq> lit ''shipping'' \<and> k \<noteq> lit ''price'' \<longrightarrow> map_of out k = map_of kvs k))"
    using cleanProduct_inline_frame [of rt kvs r'] by blast
  show ?thesis using a b c by blast
qed

theorem cleanProduct_frame_witness:
  "cleanProduct_comprehensive exampleRuntime exampleProduct
     = Inr (JObj [(lit ''title'', JStr (lit ''A'')), (lit ''price'', JStr (lit ''$20.00''))])
   \<and> map_of [(lit ''title'', JStr (lit ''A'')), (lit ''price'', JStr (lit ''$20.00''))]
        (lit ''shipping'') = None
   \<and> map_of [(lit ''title'', JStr (lit ''A'')), (lit ''price'', JStr (lit ''$20.00''))]
        (lit ''title'')
       = map_of (own_entries exampleProduct) (lit ''title'')"
proof -
  let ?out = "[(lit ''title'', JStr (lit ''A'')), (lit ''price'', JStr (lit ''$20.00''))]"
  have run: "cleanProduct_comprehensive exampleRuntime (JObj (own_entries exampleProduct))
      = Inr (JObj ?out)"
    by code_simp
  have same: "JObj (own_entries exampleProduct) = exampleProduct"
    by (simp add: exampleProduct_def)
  have t: "lit ''title'' \<noteq> lit ''shipping'' \<and> lit ''title'' \<noteq> lit ''price''"
    by (simp add: lit_def)
  have frame: "map_of ?out (lit ''shipping'') = None
      \<and> (\<forall>k. k \<noteq> lit ''shipping'' \<and> k \<noteq> lit ''price''
             \<longrightarrow> map_of ?out k = map_of (own_entries exampleProduct) k)"
    using cleanProduct_frame [of exampleRuntime "own_entries exampleProduct" "JObj ?out"] run
    by simp
  have kept: "map_of ?out (lit ''title'') = map_of (own_entries exampleProduct) (lit ''title'')"
    using frame t by blast
  have gone: "map_of ?out (lit ''shipping'') = None"
    using frame by blast
  show ?thesis using run [unfolded same] kept gone by blast
qed

text \<open>Cleaning a cleaned product changes nothing, when strings are returned as they are.\<close>

lemma cleaned_entries_fixed:
  fixes L :: "(jsstring \<times> jsval) list"
  assumes "L' = AList.update (lit ''price'') (JStr p) (AList.delete (lit ''shipping'') L)"
  shows "AList.delete (lit ''shipping'') L' = L'"
    and "map_of L' (lit ''price'') = Some (JStr p)"
    and "AList.update (lit ''price'') (JStr p) L' = L'"
proof -
  have "lit ''shipping'' \<notin> fst ` set L'"
    using assms price_not_shipping by (simp add: dom_update delete_notin_dom)
  then show "AList.delete (lit ''shipping'') L' = L'" by simp
  show p: "map_of L' (lit ''price'') = Some (JStr p)"
    using assms by (simp add: update_conv')
  show "AList.update (lit ''price'') (JStr p) L' = L'"
    using p by (rule update_triv)
qed

lemma cleanProduct_with_idem:
  assumes str: "\<And>s. f (JStr s) = Inr s" and "cleanProduct_with f product = Inr q"
  shows "cleanProduct_with f q = Inr q"
proof -
  obtain p where q: "q = JObj (AList.update (lit ''price'') (JStr p)
                        (AList.delete (lit ''shipping'') (own_entries product)))"
    using cleanProduct_with_shape [OF assms(2)] by blast
  define L' where "L' = AList.update (lit ''price'') (JStr p)
                        (AList.delete (lit ''shipping'') (own_entries product))"
  note fx = cleaned_entries_fixed [OF L'_def]
  have "cleanProduct_with f (JObj L') = Inr (JObj L')"
    by (simp add: cleanProduct_with_def Let_def bindE_def fx str)
  then show ?thesis using q L'_def by simp
qed

lemma mapE_idem:
  assumes "\<And>x y. f x = Inr y \<Longrightarrow> f y = Inr y" and "mapE f xs = Inr ys"
  shows "mapE f ys = Inr ys"
  using assms(2)
proof (induction xs arbitrary: ys)
  case Nil
  then show ?case by (simp add: mapE_Nil)
next
  case (Cons x xs)
  then obtain y ys' where y: "f x = Inr y" and ys': "mapE f xs = Inr ys'" and e: "ys = y # ys'"
    by (auto simp: mapE_Cons bindE_Inr_iff)
  have "f y = Inr y" using assms(1) y by blast
  moreover have "mapE f ys' = Inr ys'" using Cons.IH ys' by blast
  ultimately show ?case using e by (simp add: mapE_Cons bindE_def)
qed

text \<open>
  C10. The per-product cleaning of the comprehensive variant, mapped over an
  \<open>organic_results\<close> list, is idempotent: running it on its own result gives that
  result again, and running it twice in sequence is running it once (also when the
  first run throws).
\<close>

theorem sanitizer_idempotent:
  "bindE (mapE (cleanProduct_comprehensive rt) products) (mapE (cleanProduct_comprehensive rt))
     = mapE (cleanProduct_comprehensive rt) products
   \<and> (mapE (cleanProduct_comprehensive rt) products = Inr cleaned
        \<longrightarrow> mapE (cleanProduct_comprehensive rt) cleaned = Inr cleaned)"
proof -
  have one: "\<And>x y. cleanProduct_comprehensive rt x = Inr y
      \<Longrightarrow> cleanProduct_comprehensive rt y = Inr y"
    unfolding cleanProduct_comprehensive_def
    using cleanProduct_with_idem [of "cleanPriceField_comprehensive rt"]
      cleanPriceField_comprehensive_string by blast
  have all: "\<And>xs ys. mapE (cleanProduct_comprehensive rt) xs = Inr ys
      \<Longrightarrow> mapE (cleanProduct_comprehensive rt) ys = Inr ys"
    using mapE_idem [of "cleanProduct_comprehensive rt"] one by blast
  show ?thesis
  proof (cases "mapE (cleanProduct_comprehensive rt) products")
    case (Inl e)
    then show ?thesis by (simp add: bindE_def)
  next
    case (Inr ys)
    then show ?thesis using all [OF Inr] by (auto simp: bindE_def)
  qed
qed

theorem sanitizer_idempotent_witness:
  "mapE (cleanProduct_comprehensive exampleRuntime) [exampleProduct, JNull]
     = Inr [JObj [(lit ''title'', JStr (lit ''A'')), (lit ''price'', JStr (lit ''$20.00''))],
            JObj [(lit ''price'', JStr (lit ''Price not available''))]]
   \<and> mapE (cleanProduct_comprehensive exampleRuntime)
        [JObj [(lit ''title'', JStr (lit ''A'')), (lit ''price'', JStr (lit ''$20.00''))],
         JObj [(lit ''price'', JStr (lit ''Price not available''))]]
     = Inr [JObj [(lit ''title'', JStr (lit ''A'')), (lit ''price'', JStr (lit ''$20.00''))],
            JObj [(lit ''price'', JStr (lit ''Price not available''))]]"
proof -
  let ?cleaned = "[JObj [(lit ''title'', JStr (lit ''A'')), (lit ''price'', JStr (lit ''$20.00''))],
                   JObj [(lit ''price'', JStr (lit ''Price not available''))]]"
  have run: "mapE (cleanProduct_comprehensive exampleRuntime) [exampleProduct, JNull]
      = Inr ?cleaned"
    by code_simp
  show ?thesis
    using run sanitizer_idempotent [of exampleRuntime "[exampleProduct, JNull]" ?cleaned]
    by simp
qed

section \<open>Properties of request validation\<close>

text \<open>
  The required-field test on any body that can be read: it finds both fields missing
  when each is absent or falsy. On \<open>null\<close> and \<open>undefined\<close> the read throws.
\<close>

lemma missingRequired_any:
  assumes "b \<noteq> JNull" and "b \<noteq> JUndefined"
    and "\<forall>v. map_of (own_entries b) (lit ''_nkw'') = Some v \<longrightarrow> \<not> truthy v"
    and "\<forall>v. map_of (own_entries b) (lit ''category_id'') = Some v \<longrightarrow> \<not> truthy v"
  shows "missingRequired b = Inr True"
  using assms by (cases b) (auto simp: missingRequired_def bindE_def split: option.splits)

lemma missingRequired_nullish:
  "missingRequired JNull = Inl (NullishRead JNull (lit ''_nkw''))"
  "missingRequired JUndefined = Inl (NullishRead JUndefined (lit ''_nkw''))"
  by (simp_all add: missingRequired_def bindE_def)

lemma tryRegion_open_rejects:
  assumes "SERPAPI_KEY e = Some k" and "k \<noteq> []"
    and "\<forall>v. map_of (own_entries (body req)) (lit ''_nkw'') = Some v \<longrightarrow> \<not> truthy v"
    and "\<forall>v. map_of (own_entries (body req)) (lit ''category_id'') = Some v \<longrightarrow> \<not> truthy v"
  shows "fst (tryRegion_open rt e fetch cp req) = []
         \<and> fst (catch_open rt (snd (tryRegion_open rt e fetch cp req)))
             = (if body req = JNull \<or> body req = JUndefined then 500 else 400)"
proof (cases "body req = JNull \<or> body req = JUndefined")
  case True
  then show ?thesis
    using assms(1,2)
    by (auto simp: tryRegion_open_def Let_def missingRequired_nullish catch_open_def)
next
  case False
  then have "missingRequired (body req) = Inr True"
    using missingRequired_any assms(3,4) by blast
  then show ?thesis
    using assms(1,2) False
    by (simp add: tryRegion_open_def Let_def requiredMissing_def catch_open_def)
qed

lemma tryRegion_hardened_rejects:
  assumes "SERPAPI_KEY e = Some k" and "k \<noteq> []"
    and "\<forall>v. map_of (own_entries (body req)) (lit ''_nkw'') = Some v \<longrightarrow> \<not> truthy v"
    and "\<forall>v. map_of (own_entries (body req)) (lit ''category_id'') = Some v \<longrightarrow> \<not> truthy v"
  shows "fst (tryRegion_hardened rt e fetch req) = []
         \<and> fst (catch_hardened rt (snd (tryRegion_hardened rt e fetch req))) = 400"
proof (cases "\<not> truthy (body req) \<or> typeof (body req) \<noteq> ''object''")
  case True
  then show ?thesis
    using assms(1,2) by (auto simp: tryRegion_hardened_def Let_def catch_hardened_def)
next
  case False
  then have "body req \<noteq> JNull" and "body req \<noteq> JUndefined"
    by auto
  then have "missingRequired (body req) = Inr True"
    using missingRequired_any assms(3,4) by blast
  then show ?thesis
    using assms(1,2) False
    by (simp add: tryRegion_hardened_def Let_def requiredMissing_def catch_hardened_def)
qed

text \<open>The status and the upstream calls of a handler, read off its \<open>try\<close> region.\<close>

lemma handler_open_fetched:
  "fetched (handler_open rt e fetch cp req)
     = (if reqMethod req = lit ''POST'' then fst (tryRegion_open rt e fetch cp req) else [])"
  by (simp add: handler_open_def respond_def Let_def case_prod_unfold lit_def)

lemma handler_open_status:
  "reqMethod req = lit ''POST'' \<Longrightarrow>
     status (reply (handler_open rt e fetch cp req))
       = fst (catch_open rt (snd (tryRegion_open rt e fetch cp req)))"
  by (simp add: handler_open_def respond_def Let_def case_prod_unfold lit_def)

lemma handler_hardened_fetched:
  "fetched (fst (handler_hardened rt e fetch now m req))
     = (if reqMethod req = lit ''POST'' \<and> fst (checkRateLimit now (getClientIP req) m)
        then fst (tryRegion_hardened rt e fetch req) else [])"
  by (simp add: handler_hardened_def respond_def Let_def case_prod_unfold lit_def)

lemma handler_hardened_status:
  "reqMethod req = lit ''POST'' \<Longrightarrow> fst (checkRateLimit now (getClientIP req) m) \<Longrightarrow>
     status (reply (fst (handler_hardened rt e fetch now m req)))
       = fst (catch_hardened rt (snd (tryRegion_hardened rt e fetch req)))"
  by (simp add: handler_hardened_def respond_def Let_def case_prod_unfold lit_def)

text \<open>
  C3. Take a \<open>POST\<close> with the API key configured and any body at all in which
  \<open>_nkw\<close> and \<open>category_id\<close> are each absent or falsy (the empty string among the
  falsy values; \<open>null\<close>, \<open>undefined\<close>, a primitive or an array has neither field).
  No handler makes an upstream call. The rate-limited handler answers 400 whenever its
  limiter lets the request through. The two open handlers answer 400 on every such
  body but \<open>null\<close> and \<open>undefined\<close>: there the read of \<open>_nkw\<close> throws and they
  answer 500, against the claim.
\<close>

theorem missing_required_status:
  assumes nkw: "\<forall>v. map_of (own_entries (body req)) (lit ''_nkw'') = Some v \<longrightarrow> \<not> truthy v"
    and cat: "\<forall>v. map_of (own_entries (body req)) (lit ''category_id'') = Some v
                \<longrightarrow> \<not> truthy v"
    and post: "reqMethod req = lit ''POST''"
    and key: "SERPAPI_KEY e = Some k" "k \<noteq> []"
  shows "status (reply (handler_inline rt e fetch req))
           = (if body req = JNull \<or> body req = JUndefined then 500 else 400)
         \<and> status (reply (handler_comprehensive rt e fetch req))
           = (if body req = JNull \<or> body req = JUndefined then 500 else 400)
         \<and> (fst (checkRateLimit now (getClientIP req) m) \<longrightarrow>
              status (reply (fst (handler_hardened rt e fetch now m req))) = 400)
         \<and> fetched (handler_inline rt e fetch req) = []
         \<and> fetched (handler_comprehensive rt e fetch req) = []
         \<and> fetched (fst (handler_hardened rt e fetch now m req)) = []"
  using post tryRegion_open_rejects [OF key nkw cat, of rt fetch]
    tryRegion_hardened_rejects [OF key nkw cat, of rt fetch]
  by (simp add: handler_comprehensive_def handler_inline_def handler_open_status
      handler_open_fetched handler_hardened_status handler_hardened_fetched)

theorem missing_required_status_witness:
  "status (reply (handler_inline exampleRuntime exampleEnv exampleFetch
                    (exampleRequest (lit ''POST'') JUndefined))) = 500
   \<and> status (reply (handler_comprehensive exampleRuntime exampleEnv exampleFetch
                       (exampleRequest (lit ''POST'') JUndefined))) = 500
   \<and> status (reply (fst (handler_hardened exampleRuntime exampleEnv exampleFetch 0 []
                            (exampleRequest (lit ''POST'') JUndefined)))) = 400
   \<and> status (reply (handler_inline exampleRuntime exampleEnv exampleFetch
                       (exampleRequest (lit ''POST'') (JObj [(lit ''_nkw'', JStr [])])))) = 400
   \<and> fetched (handler_comprehensive exampleRuntime exampleEnv exampleFetch
                 (exampleRequest (lit ''POST'') (JObj [(lit ''_nkw'', JStr [])]))) = []"
proof -
  let ?u = "exampleRequest (lit ''POST'') JUndefined"
  let ?o = "exampleRequest (lit ''POST'') (JObj [(lit ''_nkw'', JStr [])])"
  have key: "SERPAPI_KEY exampleEnv = Some (lit ''secret'')" "lit ''secret'' \<noteq> []"
    by (simp_all add: exampleEnv_def lit_def)
  have pu: "reqMethod ?u = lit ''POST''" and po: "reqMethod ?o = lit ''POST''"
    by (simp_all add: exampleRequest_def)
  have bu: "body ?u = JUndefined" and bo: "body ?o = JObj [(lit ''_nkw'', JStr [])]"
    by (simp_all add: exampleRequest_def)
  have nu: "\<forall>v. map_of (own_entries (body ?u)) (lit ''_nkw'') = Some v \<longrightarrow> \<not> truthy v"
    and cu: "\<forall>v. map_of (own_entries (body ?u)) (lit ''category_id'') = Some v
               \<longrightarrow> \<not> truthy v"
    by (simp_all add: exampleRequest_def)
  have no: "\<forall>v. map_of (own_entries (body ?o)) (lit ''_nkw'') = Some v \<longrightarrow> \<not> truthy v"
    and co: "\<forall>v. map_of (own_entries (body ?o)) (lit ''category_id'') = Some v
               \<longrightarrow> \<not> truthy v"
    by (simp_all add: exampleRequest_def lit_def)
  have allowed: "fst (checkRateLimit 0 (getClientIP ?u) [])"
    using checkRateLimit_fresh [of "[]" "getClientIP ?u" 0] by simp
  show ?thesis
    using missing_required_status [OF nu cu pu key, of exampleRuntime exampleFetch 0 "[]"]
      missing_required_status [OF no co po key, of exampleRuntime exampleFetch 0 "[]"]
      allowed bu bo
    by simp
qed

text \<open>
  The hardened handler answers 400 to every \<open>POST\<close> whose body is falsy or not of
  type \<open>object\<close>, once the limiter lets it through and the key is configured.
\<close>

lemma invalid_body_hardened:
  assumes "reqMethod req = lit ''POST''" and "SERPAPI_KEY e = Some k" and "k \<noteq> []"
    and "\<not> truthy (body req) \<or> typeof (body req) \<noteq> ''object''"
    and "fst (checkRateLimit now (getClientIP req) m)"
  shows "status (reply (fst (handler_hardened rt e fetch now m req))) = 400
         \<and> fetched (fst (handler_hardened rt e fetch now m req)) = []"
  using assms
  by (auto simp: handler_hardened_status handler_hardened_fetched tryRegion_hardened_def Let_def
      catch_hardened_def)

text \<open>
  The open handlers have no such test: on a \<open>null\<close> or \<open>undefined\<close> body the read
  of \<open>_nkw\<close> throws, and the \<open>catch\<close> answers 500.
\<close>

lemma null_body_open:
  assumes "reqMethod req = lit ''POST''" and "SERPAPI_KEY e = Some k" and "k \<noteq> []"
    and "body req = JNull \<or> body req = JUndefined"
  shows "status (reply (handler_open rt e fetch cp req)) = 500
         \<and> fetched (handler_open rt e fetch cp req) = []"
  using assms
  by (auto simp: handler_open_status handler_open_fetched tryRegion_open_def Let_def
      missingRequired_def bindE_def catch_open_def)

text \<open>
  C4. A \<open>POST\<close> with the body \<open>null\<close>, the key configured: the handler of
  \<open>api/ebay-search.js\<close> and the comprehensive handler answer 500, not 400.
\<close>

theorem null_body_falls_through:
  "status (reply (handler_inline rt exampleEnv fetch (exampleRequest (lit ''POST'') JNull)))
     = 500
   \<and> status (reply (handler_comprehensive rt exampleEnv fetch
                       (exampleRequest (lit ''POST'') JNull))) = 500"
proof -
  have "reqMethod (exampleRequest (lit ''POST'') JNull) = lit ''POST''"
    and "SERPAPI_KEY exampleEnv = Some (lit ''secret'')" and "lit ''secret'' \<noteq> []"
    and "body (exampleRequest (lit ''POST'') JNull) = JNull
         \<or> body (exampleRequest (lit ''POST'') JNull) = JUndefined"
    by (simp_all add: exampleRequest_def exampleEnv_def lit_def)
  then show ?thesis
    using null_body_open unfolding handler_inline_def handler_comprehensive_def by blast
qed

theorem null_body_falls_through_witness:
  "status (reply (handler_inline exampleRuntime exampleEnv exampleFetch
                    (exampleRequest (lit ''POST'') JNull))) = 500
   \<and> status (reply (handler_comprehensive exampleRuntime exampleEnv exampleFetch
                       (exampleRequest (lit ''POST'') JNull))) = 500"
  using null_body_falls_through [of exampleRuntime exampleFetch] by simp

section \<open>Properties of the upstream query\<close>

text \<open>A string without surrogate code units is appended as it is.\<close>

lemma toUSV_plain:
  "\<forall>c \<in> set s. \<not> isHighSurrogate c \<and> \<not> isLowSurrogate c \<Longrightarrow> toUSV s = s"
  by (induction s rule: toUSV.induct) auto

lemma allowedChar_plain: "allowedChar c \<Longrightarrow> \<not> isHighSurrogate c \<and> \<not> isLowSurrogate c"
  by (auto simp: allowedChar_def isWordChar_def isWhiteSpace_def isHighSurrogate_def
      isLowSurrogate_def word_le_nat_alt)

lemma toUSV_sanitizeValue: "toUSV (sanitizeValue s) = sanitizeValue s"
  by (rule toUSV_plain) (simp add: sanitizeValue_def allowedChar_plain)

lemma appendParams_verbatim_eq:
  assumes "\<forall>(k, v) \<in> set ps.
             map_of kvs k = Some v \<and> (forwarded v \<longrightarrow> toStr rt v = Inr (str v))"
  shows "appendParams_verbatim rt (JObj kvs) (map fst ps) q
           = Inr (q @ map (\<lambda>(k, v). (toUSV k, toUSV (str v)))
                        (filter (\<lambda>(k, v). forwarded v) ps))"
  using assms
proof (induction ps arbitrary: q)
  case Nil
  then show ?case by simp
next
  case (Cons p ps)
  obtain k v where p: "p = (k, v)" by (cases p)
  have g: "getProp (JObj kvs) k = Inr v" using Cons.prems p by simp
  have s: "forwarded v \<Longrightarrow> toStr rt v = Inr (str v)" using Cons.prems p by simp
  have r: "\<And>q. appendParams_verbatim rt (JObj kvs) (map fst ps) q
      = Inr (q @ map (\<lambda>(k, v). (toUSV k, toUSV (str v)))
                   (filter (\<lambda>(k, v). forwarded v) ps))"
    using Cons.IH Cons.prems by simp
  show ?case by (simp add: p g r s bindE_def appendParam_def del: getProp.simps)
qed

lemma appendParams_sanitized_eq:
  assumes "\<forall>(k, v) \<in> set ps.
             map_of kvs k = Some v \<and> (forwarded v \<longrightarrow> toStr rt v = Inr (str v))"
  shows "appendParams_sanitized rt (JObj kvs) (map fst ps) q
           = Inr (q @ map (\<lambda>(k, v). (toUSV k, sanitizeValue (str v)))
                        (filter (\<lambda>(k, v). forwarded v \<and> sanitizeValue (str v) \<noteq> []) ps))"
  using assms
proof (induction ps arbitrary: q)
  case Nil
  then show ?case by simp
next
  case (Cons p ps)
  obtain k v where p: "p = (k, v)" by (cases p)
  have g: "getProp (JObj kvs) k = Inr v" using Cons.prems p by simp
  have s: "forwarded v \<Longrightarrow> toStr rt v = Inr (str v)" using Cons.prems p by simp
  have r: "\<And>q. appendParams_sanitized rt (JObj kvs) (map fst ps) q
      = Inr (q @ map (\<lambda>(k, v). (toUSV k, sanitizeValue (str v)))
                   (filter (\<lambda>(k, v). forwarded v \<and> sanitizeValue (str v) \<noteq> []) ps))"
    using Cons.IH Cons.prems by simp
  show ?case
    by (simp add: p g r s bindE_def appendParam_def Let_def toUSV_sanitizeValue del: getProp.simps)
qed

lemma distinct_lookup:
  "distinct (map fst kvs) \<Longrightarrow> \<forall>(k, v) \<in> set kvs. map_of kvs k = Some v"
  by auto

text \<open>
  C7, as stated, fails for the sanitizing variant: a value of which the stripping
  leaves nothing is not appended at all, where the claim has the pair appended with
  the stripped (empty) value.
\<close>

theorem query_builder_counterexample:
  "buildQuery_sanitized exampleRuntime (lit ''secret'')
      (JObj [(lit ''_nkw'', JStr (lit ''jersey'')), (lit ''sort'', JStr (lit ''#''))])
     \<noteq> Inr (specQuery_sanitized strval (lit ''secret'')
               [(lit ''_nkw'', JStr (lit ''jersey'')), (lit ''sort'', JStr (lit ''#''))])"
  by code_simp

text \<open>
  C7, amended. For a body object (its keys distinct), both builders append
  \<open>engine=ebay\<close>, \<open>api_key\<close> and \<open>ebay_domain=ebay.com\<close> first. The open variants
  then append, in key order, every pair whose value is none of \<open>null\<close>,
  \<open>undefined\<close> and the empty string, the value as \<open>append\<close> converts it (\<open>str\<close> is
  the string conversion, where it returns; a string without unpaired surrogates stays
  as it is). The sanitizing variant converts each such value to a string, strips every
  character outside \<open>[A-Za-z0-9_\s.,()-]\<close>, and appends the pair with the stripped
  value only when that is not empty.
\<close>

theorem query_builder:
  assumes "distinct (map fst kvs)"
    and "\<forall>(k, v) \<in> set kvs. forwarded v \<longrightarrow> toStr rt v = Inr (str v)"
  shows "buildQuery_verbatim rt API_KEY (JObj kvs)
           = Inr ([(lit ''engine'', lit ''ebay''), (lit ''api_key'', toUSV API_KEY),
                   (lit ''ebay_domain'', lit ''ebay.com'')]
                  @ map (\<lambda>(k, v). (toUSV k, toUSV (str v)))
                      (filter (\<lambda>(k, v). forwarded v) kvs))
         \<and> buildQuery_sanitized rt API_KEY (JObj kvs)
           = Inr ([(lit ''engine'', lit ''ebay''), (lit ''api_key'', toUSV API_KEY),
                   (lit ''ebay_domain'', lit ''ebay.com'')]
                  @ map (\<lambda>(k, v). (toUSV k, sanitizeValue (str v)))
                      (filter (\<lambda>(k, v). forwarded v \<and> sanitizeValue (str v) \<noteq> []) kvs))"
proof -
  have l: "\<forall>(k, v) \<in> set kvs. map_of kvs k = Some v"
    using assms(1) by (rule distinct_lookup)
  have l': "\<forall>(k, v) \<in> set kvs.
      map_of kvs k = Some v \<and> (forwarded v \<longrightarrow> toStr rt v = Inr (str v))"
    using l assms(2) by blast
  show ?thesis
    using appendParams_verbatim_eq [OF l'] appendParams_sanitized_eq [OF l']
    by (simp add: buildQuery_verbatim_def buildQuery_sanitized_def fixedParams_def)
qed

theorem query_builder_witness:
  "distinct (map fst [(lit ''_nkw'', JStr (lit ''jersey!'')), (lit ''sort'', JStr (lit ''#'')),
                      (lit ''page'', JStr [])])
   \<and> buildQuery_verbatim exampleRuntime (lit ''secret'')
        (JObj [(lit ''_nkw'', JStr (lit ''jersey!'')), (lit ''sort'', JStr (lit ''#'')),
               (lit ''page'', JStr [])])
       = Inr [(lit ''engine'', lit ''ebay''), (lit ''api_key'', lit ''secret''),
              (lit ''ebay_domain'', lit ''ebay.com''),
              (lit ''_nkw'', lit ''jersey!''), (lit ''sort'', lit ''#'')]
   \<and> buildQuery_sanitized exampleRuntime (lit ''secret'')
        (JObj [(lit ''_nkw'', JStr (lit ''jersey!'')), (lit ''sort'', JStr (lit ''#'')),
               (lit ''page'', JStr [])])
       = Inr [(lit ''engine'', lit ''ebay''), (lit ''api_key'', lit ''secret''),
              (lit ''ebay_domain'', lit ''ebay.com''),
              (lit ''_nkw'', lit ''jersey'')]"
proof -
  let ?kvs = "[(lit ''_nkw'', JStr (lit ''jersey!'')), (lit ''sort'', JStr (lit ''#'')),
               (lit ''page'', JStr [])]"
  have d: "distinct (map fst ?kvs)"
    by (simp add: lit_def)
  have t: "\<forall>(k, v) \<in> set ?kvs. forwarded v \<longrightarrow> toStr exampleRuntime v = Inr (strval v)"
    by simp
  have v: "[(lit ''engine'', lit ''ebay''), (lit ''api_key'', toUSV (lit ''secret'')),
            (lit ''ebay_domain'', lit ''ebay.com'')]
           @ map (\<lambda>(k, v). (toUSV k, toUSV (strval v)))
               (filter (\<lambda>(k, v). forwarded v) ?kvs)
      = [(lit ''engine'', lit ''ebay''), (lit ''api_key'', lit ''secret''),
         (lit ''ebay_domain'', lit ''ebay.com''),
         (lit ''_nkw'', lit ''jersey!''), (lit ''sort'', lit ''#'')]"
    by code_simp
  have s: "[(lit ''engine'', lit ''ebay''), (lit ''api_key'', toUSV (lit ''secret'')),
            (lit ''ebay_domain'', lit ''ebay.com'')]
           @ map (\<lambda>(k, v). (toUSV k, sanitizeValue (strval v)))
               (filter (\<lambda>(k, v). forwarded v \<and> sanitizeValue (strval v) \<noteq> []) ?kvs)
      = [(lit ''engine'', lit ''ebay''), (lit ''api_key'', lit ''secret''),
         (lit ''ebay_domain'', lit ''ebay.com''),
         (lit ''_nkw'', lit ''jersey'')]"
    by code_simp
  show ?thesis
    using query_builder [OF d t, of "lit ''secret''", unfolded v s] d by blast
qed

end
